theory Spec2Isabelle
  imports Complex_Main "HOL-Library.AList"
begin

section \<open>Values crossing the JavaScript bridge\<close>

text \<open>
  Both native modules receive their arguments as untyped dictionaries
  (Kotlin \<^verbatim>\<open>Map<String, Any?>\<close>, Swift \<^verbatim>\<open>[String: Any]\<close>).  A value is a
  boolean, a number, a string, a list or a dictionary.  Numbers are the exact
  rational value of the JavaScript double (NaN and the infinities are outside
  the model).  A dictionary is an association list; looking a key up is
  \<open>map_of\<close>, storing one is \<open>AList.update\<close>.
\<close>

datatype jvalue =
    JNull
  | JBool bool
  | JNum rat
  | JStr string
  | JList "jvalue list"
  | JMap "(string \<times> jvalue) list"

type_synonym jmap = "(string \<times> jvalue) list"

text \<open>The safe casts \<^verbatim>\<open>as? String\<close>, \<^verbatim>\<open>as? Boolean\<close>, \<^verbatim>\<open>as? Number\<close>,
  \<^verbatim>\<open>as? Map\<close> and \<^verbatim>\<open>as? List\<close> applied to the result of a lookup.\<close>

fun asString :: "jvalue option \<Rightarrow> string option" where
  "asString (Some (JStr s)) = Some s"
| "asString _ = None"

fun asBoolean :: "jvalue option \<Rightarrow> bool option" where
  "asBoolean (Some (JBool b)) = Some b"
| "asBoolean _ = None"

fun asNumber :: "jvalue option \<Rightarrow> rat option" where
  "asNumber (Some (JNum r)) = Some r"
| "asNumber _ = None"

fun asMap :: "jvalue option \<Rightarrow> jmap option" where
  "asMap (Some (JMap m)) = Some m"
| "asMap _ = None"

fun asList :: "jvalue option \<Rightarrow> jvalue list option" where
  "asList (Some (JList xs)) = Some xs"
| "asList _ = None"

text \<open>Kotlin's \<^verbatim>\<open>a ?: b\<close>.\<close>

fun orElse :: "'a option \<Rightarrow> 'a \<Rightarrow> 'a" where
  "orElse (Some x) d = x"
| "orElse None d = d"

subsection \<open>Machine integers\<close>

text \<open>
  \<^verbatim>\<open>Int\<close> is 32 bits and \<^verbatim>\<open>Long\<close> 64 bits, both two's complement: the
  arithmetic of the source is written over \<open>int\<close> with the wrap-around
  explicit.  \<^verbatim>\<open>Double.toInt()\<close> rounds towards zero and saturates.
\<close>

definition wrap32 :: "int \<Rightarrow> int" where
  "wrap32 x = (x + 2147483648) mod 4294967296 - 2147483648"

definition wrap64 :: "int \<Rightarrow> int" where
  "wrap64 x = (x + 9223372036854775808) mod 18446744073709551616 - 9223372036854775808"

definition truncateTowardsZero :: "rat \<Rightarrow> int" where
  "truncateTowardsZero r = (if r < 0 then \<lceil>r\<rceil> else \<lfloor>r\<rfloor>)"

definition toInt :: "rat \<Rightarrow> int" where
  "toInt r = max (- 2147483648) (min 2147483647 (truncateTowardsZero r))"

text \<open>\<^verbatim>\<open>Int.toString()\<close>, as the string template \<^verbatim>\<open>"$minutes"\<close> uses it.\<close>

fun digitsOf :: "nat \<Rightarrow> string" where
  "digitsOf n =
     (if n < 10 then [char_of (48 + n)]
      else digitsOf (n div 10) @ [char_of (48 + n mod 10)])"

declare digitsOf.simps [simp del]

definition intToString :: "int \<Rightarrow> string" where
  "intToString k = (if k < 0 then CHR ''-'' # digitsOf (nat (- k)) else digitsOf (nat k))"

section \<open>Android: NotificationHelper\<close>

text \<open>
  What \<^verbatim>\<open>NotificationCompat.Builder\<close> is given.  The icon resource, the content
  intent and the parsed colour need the Android \<^verbatim>\<open>Context\<close> and are left out;
  every other setter of \<^verbatim>\<open>buildNotification\<close> is a field.
\<close>

record actionButton =
  buttonActionId :: string
  buttonTitle :: string
  buttonNotificationId :: "string option"
  buttonData :: "jmap option"

record notification =
  contentTitle :: string
  contentText :: string
  channelId :: string
  ongoing :: bool
  priority :: int
  colorString :: "string option"
  progress :: "(int \<times> int \<times> bool) option"
  buttons :: "actionButton list"

text \<open>
  The one exception \<^verbatim>\<open>buildNotification\<close> raises by itself: the list under
  \<^verbatim>\<open>"actions"\<close> is cast unchecked to a list of maps, so reading an entry
  that is no map throws (and a null entry is dereferenced).
\<close>

datatype exn = ClassCastException | NullPointerException

definition notificationPriority :: "string option \<Rightarrow> int" where
  "notificationPriority p =
     (if p = Some ''high'' then 1
      else if p = Some ''low'' then - 1
      else if p = Some ''min'' then - 2
      else if p = Some ''max'' then 2
      else 0)"

text \<open>
  The body of \<^verbatim>\<open>actions.take(3).forEach { action -> ... }\<close>: an entry without a
  string \<^verbatim>\<open>id\<close> or \<^verbatim>\<open>title\<close> is skipped (\<^verbatim>\<open>return@forEach\<close>).
\<close>

definition actionButtonOf :: "jmap \<Rightarrow> jmap \<Rightarrow> jmap \<Rightarrow> actionButton option" where
  "actionButtonOf options content action =
     (case asString (map_of action ''id'') of
        None \<Rightarrow> None
      | Some actionId \<Rightarrow>
          (case asString (map_of action ''title'') of
             None \<Rightarrow> None
           | Some actionTitle \<Rightarrow>
               Some \<lparr> buttonActionId = actionId,
                      buttonTitle = actionTitle,
                      buttonNotificationId = asString (map_of options ''id''),
                      buttonData = asMap (map_of content ''data'') \<rparr>))"

fun addActions :: "jmap \<Rightarrow> jmap \<Rightarrow> jvalue list \<Rightarrow> exn + actionButton list" where
  "addActions options content [] = Inr []"
| "addActions options content (JMap action # rest) =
     (case actionButtonOf options content action of
        None \<Rightarrow> addActions options content rest
      | Some b \<Rightarrow>
          (case addActions options content rest of
             Inl e \<Rightarrow> Inl e
           | Inr bs \<Rightarrow> Inr (b # bs)))"
| "addActions options content (JNull # rest) = Inl NullPointerException"
| "addActions options content (_ # rest) = Inl ClassCastException"

definition buildNotification :: "jmap \<Rightarrow> exn + notification" where
  "buildNotification options =
     (let content = orElse (asMap (map_of options ''content'')) [];
          androidOptions = orElse (asMap (map_of options ''android'')) [];
          actions = asList (map_of options ''actions'');
          title = orElse (asString (map_of content ''title'')) '''';
          body = orElse (asString (map_of content ''body'')) '''';
          channel = orElse (asString (map_of androidOptions ''channelId'')) ''default'';
          color = asString (map_of androidOptions ''color'');
          isOngoing = orElse (asBoolean (map_of androidOptions ''ongoing'')) True;
          prio = asString (map_of androidOptions ''priority'');
          showProgress = orElse (asBoolean (map_of androidOptions ''showProgress'')) False;
          progressMax = orElse (map_option toInt (asNumber (map_of androidOptions ''progressMax''))) 100;
          progressCurrent = orElse (map_option toInt (asNumber (map_of androidOptions ''progressCurrent''))) 0;
          progressIndeterminate = orElse (asBoolean (map_of androidOptions ''progressIndeterminate'')) False
      in case (case actions of
                 None \<Rightarrow> Inr []
               | Some as \<Rightarrow> addActions options content (take 3 as)) of
           Inl e \<Rightarrow> Inl e
         | Inr bs \<Rightarrow>
             Inr \<lparr> contentTitle = title,
                   contentText = body,
                   channelId = channel,
                   ongoing = isOngoing,
                   priority = notificationPriority prio,
                   colorString = color,
                   progress = (if showProgress
                               then Some (progressMax, progressCurrent, progressIndeterminate)
                               else None),
                   buttons = bs \<rparr>)"

section \<open>Android: LocationTrackingService\<close>

text \<open>
  The instance fields of the service.  The companion object's \<^verbatim>\<open>isRunning\<close> and
  \<^verbatim>\<open>currentNotificationId\<close> are static and live in the process state below.
  \<^verbatim>\<open>Handler\<close> and \<^verbatim>\<open>Runnable\<close> objects are represented by their identity.
\<close>

record service =
  notificationOptions :: "jmap option"
  handler :: "nat option"
  updateRunnable :: "nat option"
  arrivalTimeMillis :: int

definition newService :: service where
  "newService = \<lparr> notificationOptions = None, handler = None,
                   updateRunnable = None, arrivalTimeMillis = 0 \<rparr>"

text \<open>
  A message pending on the main looper: the handler it was posted through, the
  service instance its code closes over, what it runs (the update runnable
  with the given identity, or the lambda that ends tracking after the grace
  period) and the delay it was posted with.
\<close>

datatype task = UpdateRunnable nat | GraceLambda

record post =
  postHandler :: nat
  postService :: nat
  postTask :: task
  postDelay :: int

datatype event =
    OnServiceStatusChange bool "string option"
  | OnNotificationUpdate string
  | OnNotificationAction string string "jmap option"

text \<open>An intent with the extras the module and the receiver put on it.\<close>

record intent =
  extraACTION :: "string option"
  extraOPTIONS :: "jmap option"
  extraNOTIFICATION_ID :: "string option"
  extraCONTENT :: "jmap option"
  extraACTIONS :: "jvalue list option"

text \<open>A request the system has accepted and not yet carried out: start the
  service with an intent, or stop it.\<close>

datatype command = StartCommand intent | StopCommand

text \<open>
  The state of the Android process: the companion object, the store of service
  instances, the instance the system currently runs, the requests the system
  has still to carry out (oldest first), the looper's queue of posts, the
  notification shown under \<^verbatim>\<open>NOTIFICATION_ID\<close> with the log of every
  \<^verbatim>\<open>startForeground\<close> and \<^verbatim>\<open>notify\<close> (newest first), the instances that called
  \<^verbatim>\<open>stopSelf\<close>, the events sent to JavaScript (oldest first), and what the next
  \<^verbatim>\<open>startService\<close> and the next \<^verbatim>\<open>stopService\<close> throw, if anything.
\<close>

record android =
  isRunning :: bool
  currentNotificationId :: "string option"
  services :: "nat \<Rightarrow> service"
  live :: "nat option"
  nextObject :: nat
  pendingCommands :: "command list"
  looper :: "post list"
  shown :: "notification option"
  posted :: "notification list"
  stopSelfRequests :: "nat list"
  events :: "event list"
  startServiceThrows :: "string option"
  stopServiceThrows :: "string option"

definition initialAndroid :: android where
  "initialAndroid =
     \<lparr> isRunning = False, currentNotificationId = None,
       services = (\<lambda>_. newService), live = None, nextObject = 0,
       pendingCommands = [], looper = [], shown = None, posted = [],
       stopSelfRequests = [], events = [], startServiceThrows = None,
       stopServiceThrows = None \<rparr>"

definition isServiceRunning :: "android \<Rightarrow> bool" where
  "isServiceRunning w = isRunning w"

definition modifyService :: "nat \<Rightarrow> (service \<Rightarrow> service) \<Rightarrow> android \<Rightarrow> android" where
  "modifyService i f w = w\<lparr> services := (services w)(i := f (services w i)) \<rparr>"

definition stopSelf :: "nat \<Rightarrow> android \<Rightarrow> android" where
  "stopSelf i w = w\<lparr> stopSelfRequests := i # stopSelfRequests w \<rparr>"

definition notify :: "notification \<Rightarrow> android \<Rightarrow> android" where
  "notify n w = w\<lparr> shown := Some n, posted := n # posted w \<rparr>"

definition postDelayed :: "nat \<Rightarrow> task \<Rightarrow> int \<Rightarrow> android \<Rightarrow> android" where
  "postDelayed i t delay w =
     (case handler (services w i) of
        None \<Rightarrow> w
      | Some h \<Rightarrow>
          w\<lparr> looper := looper w @
                [\<lparr> postHandler = h, postService = i, postTask = t, postDelay = delay \<rparr>] \<rparr>)"

definition startForegroundNotification :: "nat \<Rightarrow> jmap \<Rightarrow> android \<Rightarrow> android" where
  "startForegroundNotification i options w =
     (let w1 = modifyService i (\<lambda>s. s\<lparr> notificationOptions := Some options \<rparr>) w;
          w2 = w1\<lparr> currentNotificationId := asString (map_of options ''id'') \<rparr>
      in case buildNotification options of
           Inl e \<Rightarrow> stopSelf i w2
         | Inr n \<Rightarrow> (notify n w2)\<lparr> isRunning := True \<rparr>)"

definition startAutoUpdate :: "nat \<Rightarrow> android \<Rightarrow> android" where
  "startAutoUpdate i w =
     (let h = nextObject w;
          r = Suc (nextObject w);
          w1 = (modifyService i (\<lambda>s. s\<lparr> handler := Some h, updateRunnable := Some r \<rparr>) w)
                 \<lparr> nextObject := nextObject w + 2 \<rparr>
      in postDelayed i (UpdateRunnable r) 0 w1)"

definition stopAutoUpdate :: "nat \<Rightarrow> android \<Rightarrow> android" where
  "stopAutoUpdate i w =
     (let w1 = (case updateRunnable (services w i) of
                  None \<Rightarrow> w
                | Some r \<Rightarrow>
                    (case handler (services w i) of
                       None \<Rightarrow> w
                     | Some h \<Rightarrow>
                         w\<lparr> looper :=
                              filter (\<lambda>p. \<not> (postHandler p = h \<and> postTask p = UpdateRunnable r))
                                (looper w) \<rparr>))
      in modifyService i (\<lambda>s. s\<lparr> handler := None, updateRunnable := None \<rparr>) w1)"

definition arrivalTitle :: string where
  "arrivalTitle = ''Rastreando ubicaci'' @ [CHR 0xC3, CHR 0xB3] @ ''n''"

definition arrivalBody :: "int \<Rightarrow> string" where
  "arrivalBody minutes =
     (if minutes > 1 then
        ''Pr'' @ [CHR 0xC3, CHR 0xB3] @ ''ximo bus en '' @ intToString minutes @ '' minutos''
      else if minutes = 1 then
        ''Pr'' @ [CHR 0xC3, CHR 0xB3] @ ''ximo bus en 1 minuto''
      else
        [CHR 0xC2, CHR 0xA1] @ ''El bus est'' @ [CHR 0xC3, CHR 0xA1] @ '' llegando!'')"

definition updateNotificationWithTime :: "nat \<Rightarrow> int \<Rightarrow> android \<Rightarrow> android" where
  "updateNotificationWithTime i minutes w =
     (case notificationOptions (services w i) of
        None \<Rightarrow> w
      | Some opts \<Rightarrow>
          (let content = [(''title'', JStr arrivalTitle), (''body'', JStr (arrivalBody minutes))];
               updatedOptions = AList.update ''content'' (JMap content) opts;
               w1 = modifyService i (\<lambda>s. s\<lparr> notificationOptions := Some updatedOptions \<rparr>) w
           in case buildNotification updatedOptions of
                Inl e \<Rightarrow> w1
              | Inr n \<Rightarrow> notify n w1))"

definition updateIntervalMs :: int where
  "updateIntervalMs = 6000"

text \<open>\<^verbatim>\<open>run()\<close> of the runnable \<open>r\<close> that \<^verbatim>\<open>startAutoUpdate\<close> created in instance \<open>i\<close>,
  when the clock reads \<open>now\<close>.\<close>

definition run :: "nat \<Rightarrow> nat \<Rightarrow> int \<Rightarrow> android \<Rightarrow> android" where
  "run i r now w =
     (let remainingMs = wrap64 (arrivalTimeMillis (services w i) - now);
          remainingMinutes = (of_int remainingMs :: rat) / 60000
      in if remainingMinutes \<le> 0 then
           postDelayed i GraceLambda 5000 (updateNotificationWithTime i 0 w)
         else
           postDelayed i (UpdateRunnable r) updateIntervalMs
             (updateNotificationWithTime i (toInt (of_int \<lceil>remainingMinutes\<rceil>)) w))"

definition updateNotificationContent :: "nat \<Rightarrow> string \<Rightarrow> jmap \<Rightarrow> android \<Rightarrow> android" where
  "updateNotificationContent i ident content w =
     (if currentNotificationId w \<noteq> Some ident then w
      else
        (let updatedOptions =
               AList.update ''content'' (JMap content)
                 (orElse (notificationOptions (services w i)) []);
             w1 = modifyService i (\<lambda>s. s\<lparr> notificationOptions := Some updatedOptions \<rparr>) w
         in case buildNotification updatedOptions of
              Inl e \<Rightarrow> w1
            | Inr n \<Rightarrow> notify n w1))"

definition updateNotificationActions :: "nat \<Rightarrow> string \<Rightarrow> jvalue list \<Rightarrow> android \<Rightarrow> android" where
  "updateNotificationActions i ident actions w =
     (if currentNotificationId w \<noteq> Some ident then w
      else
        (let updatedOptions =
               AList.update ''actions'' (JList actions)
                 (orElse (notificationOptions (services w i)) [])
         in case buildNotification updatedOptions of
              Inl e \<Rightarrow> w
            | Inr n \<Rightarrow> notify n w))"

text \<open>\<^verbatim>\<open>stopForeground(true)\<close> removes the notification of the running instance.\<close>

definition stopForeground :: "nat \<Rightarrow> android \<Rightarrow> android" where
  "stopForeground i w = (if live w = Some i then w\<lparr> shown := None \<rparr> else w)"

definition stopForegroundService :: "nat \<Rightarrow> android \<Rightarrow> android" where
  "stopForegroundService i w =
     stopSelf i
       (modifyService i (\<lambda>s. s\<lparr> notificationOptions := None \<rparr>)
          ((stopForeground i w)\<lparr> isRunning := False, currentNotificationId := None \<rparr>))"

definition onStartCommand :: "nat \<Rightarrow> intent option \<Rightarrow> int \<Rightarrow> android \<Rightarrow> android" where
  "onStartCommand i intent now w =
     (case intent of
        None \<Rightarrow> stopSelf i w
      | Some it \<Rightarrow>
          (let action = orElse (extraACTION it) ''START''
           in if action = ''START'' then
                (case extraOPTIONS it of
                   Some options \<Rightarrow>
                     (let arrivalMinutes =
                            orElse (map_option toInt (asNumber (map_of options ''arrivalMinutes''))) 5;
                          w1 = modifyService i
                                 (\<lambda>s. s\<lparr> arrivalTimeMillis :=
                                           wrap64 (now + wrap64 (wrap32 (arrivalMinutes * 60) * 1000)) \<rparr>) w
                      in startAutoUpdate i (startForegroundNotification i options w1))
                 | None \<Rightarrow> stopSelf i w)
              else if action = ''UPDATE_CONTENT'' then
                (case extraNOTIFICATION_ID it of
                   None \<Rightarrow> w
                 | Some notifId \<Rightarrow>
                     (case extraCONTENT it of
                        None \<Rightarrow> w
                      | Some content \<Rightarrow> updateNotificationContent i notifId content w))
              else if action = ''UPDATE_ACTIONS'' then
                (case extraNOTIFICATION_ID it of
                   None \<Rightarrow> w
                 | Some notifId \<Rightarrow>
                     (case extraACTIONS it of
                        None \<Rightarrow> w
                      | Some actions \<Rightarrow> updateNotificationActions i notifId actions w))
              else if action = ''STOP'' then
                stopForegroundService i (stopAutoUpdate i w)
              else w))"

definition onDestroy :: "nat \<Rightarrow> android \<Rightarrow> android" where
  "onDestroy i w = (stopAutoUpdate i w)\<lparr> isRunning := False, currentNotificationId := None \<rparr>"

subsection \<open>The system's side\<close>

text \<open>
  \<^verbatim>\<open>Context.startService\<close> and \<^verbatim>\<open>startForegroundService\<close> hand the intent to the
  system and return; \<^verbatim>\<open>Context.stopService\<close> asks the system to stop the service
  and returns.  The system acts later, on the main looper, in the order of the
  requests.  For a start it creates the service when none runs and calls
  \<^verbatim>\<open>onStartCommand\<close> with the intent, the clock then reading \<open>now\<close>.  For a stop it
  does nothing when no service runs and otherwise destroys the service, which
  calls \<^verbatim>\<open>onDestroy\<close> and takes the foreground notification down.  The looper
  runs a pending message by taking it off the queue and executing it.
\<close>

definition startService :: "intent \<Rightarrow> android \<Rightarrow> android" where
  "startService it w = w\<lparr> pendingCommands := pendingCommands w @ [StartCommand it] \<rparr>"

definition stopService :: "android \<Rightarrow> android" where
  "stopService w = w\<lparr> pendingCommands := pendingCommands w @ [StopCommand] \<rparr>"

definition deliverCommand :: "command \<Rightarrow> int \<Rightarrow> android \<Rightarrow> android" where
  "deliverCommand c now w =
     (case c of
        StartCommand it \<Rightarrow>
          (case live w of
             Some i \<Rightarrow> onStartCommand i (Some it) now w
           | None \<Rightarrow>
               (let i = nextObject w;
                    w1 = w\<lparr> services := (services w)(i := newService),
                            live := Some i,
                            nextObject := Suc (nextObject w) \<rparr>
                in onStartCommand i (Some it) now w1))
      | StopCommand \<Rightarrow>
          (case live w of
             None \<Rightarrow> w
           | Some i \<Rightarrow> (onDestroy i w)\<lparr> live := None, shown := None \<rparr>))"

definition systemStep :: "int \<Rightarrow> android \<Rightarrow> android" where
  "systemStep now w =
     (case pendingCommands w of
        [] \<Rightarrow> w
      | c # cs \<Rightarrow> deliverCommand c now (w\<lparr> pendingCommands := cs \<rparr>))"

definition runPost :: "post \<Rightarrow> int \<Rightarrow> android \<Rightarrow> android" where
  "runPost p now w =
     (case postTask p of
        UpdateRunnable r \<Rightarrow> run (postService p) r now w
      | GraceLambda \<Rightarrow> stopForegroundService (postService p) (stopAutoUpdate (postService p) w))"

definition dispatch :: "nat \<Rightarrow> int \<Rightarrow> android \<Rightarrow> android" where
  "dispatch k now w =
     (if k < length (looper w)
      then runPost (looper w ! k) now
             (w\<lparr> looper := take k (looper w) @ drop (Suc k) (looper w) \<rparr>)
      else w)"

section \<open>Android: ExpoPersistentNotificationsModule\<close>

text \<open>A rejected promise carries an error code and a message.\<close>

datatype rejection = Rejection string string

definition sendEvent :: "event \<Rightarrow> android \<Rightarrow> android" where
  "sendEvent e w = w\<lparr> events := events w @ [e] \<rparr>"

text \<open>
  Each module function returns what its promise settles with and the new
  state.  Its body is a \<^verbatim>\<open>try\<close> whose \<^verbatim>\<open>catch\<close> rejects the promise: the call into
  the system is the statement that can throw, and nothing has happened when it
  does.  The branch on \<^verbatim>\<open>Build.VERSION.SDK_INT\<close> chooses between
  \<^verbatim>\<open>startForegroundService\<close> and \<^verbatim>\<open>startService\<close>, which hand the intent over
  alike.
\<close>

definition startIntent :: "jmap \<Rightarrow> intent" where
  "startIntent options =
     \<lparr> extraACTION = Some ''START'', extraOPTIONS = Some options,
       extraNOTIFICATION_ID = None, extraCONTENT = None, extraACTIONS = None \<rparr>"

definition android_startPersistentNotification ::
  "jmap \<Rightarrow> android \<Rightarrow> (rejection + unit) \<times> android" where
  "android_startPersistentNotification options w =
     (case startServiceThrows w of
        Some msg \<Rightarrow> (Inl (Rejection ''ERR_START_NOTIFICATION'' msg), w)
      | None \<Rightarrow>
          (let intent = startIntent options;
               w1 = startService intent w;
               notificationId = asString (map_of options ''id'')
           in (Inr (), sendEvent (OnServiceStatusChange True notificationId) w1)))"



definition android_stopPersistentNotification ::
  "string \<Rightarrow> android \<Rightarrow> (rejection + unit) \<times> android" where
  "android_stopPersistentNotification ident w =
     (case stopServiceThrows w of
        Some msg \<Rightarrow> (Inl (Rejection ''ERR_STOP_NOTIFICATION'' msg), w)
      | None \<Rightarrow>
          (let w1 = stopService w
           in (Inr (), sendEvent (OnServiceStatusChange False (Some ident)) w1)))"

definition android_isNotificationActive :: "string \<Rightarrow> android \<Rightarrow> rejection + bool" where
  "android_isNotificationActive ident w = (let isActive = isServiceRunning w in Inr isActive)"

subsection \<open>Permissions\<close>

text \<open>What the permission code reads from the platform: the SDK level and the
  result of \<^verbatim>\<open>checkSelfPermission\<close> for the two permissions.\<close>

record permissionEnv =
  sdkInt :: nat
  postNotificationsGranted :: bool
  fineLocationGranted :: bool

record permissionResponse =
  status :: string
  notifications :: bool
  location :: bool

definition TIRAMISU :: nat where
  "TIRAMISU = 33"

definition PERMISSION_GRANTED :: int where
  "PERMISSION_GRANTED = 0"

definition PERMISSION_DENIED :: int where
  "PERMISSION_DENIED = - 1"

definition POST_NOTIFICATIONS :: string where
  "POST_NOTIFICATIONS = ''android.permission.POST_NOTIFICATIONS''"

definition ACCESS_FINE_LOCATION :: string where
  "ACCESS_FINE_LOCATION = ''android.permission.ACCESS_FINE_LOCATION''"

definition getPermissionStatus :: "permissionEnv \<Rightarrow> permissionResponse" where
  "getPermissionStatus env =
     (let notificationsGranted =
            (if sdkInt env \<ge> TIRAMISU then postNotificationsGranted env else True);
          locationGranted = fineLocationGranted env;
          st = (if notificationsGranted \<and> locationGranted then ''granted''
                else if \<not> notificationsGranted \<or> \<not> locationGranted then ''denied''
                else ''undetermined'')
      in \<lparr> status = st, notifications = notificationsGranted, location = locationGranted \<rparr>)"

text \<open>
  \<^verbatim>\<open>requestPermissions\<close>: \<open>permissionsModule\<close> says whether
  \<^verbatim>\<open>appContext.permissions\<close> is available, \<open>permissionsResponse\<close> is what the
  user's answer hands to the callback.
\<close>

definition android_requestPermissions ::
  "permissionEnv \<Rightarrow> bool \<Rightarrow> (string \<times> int) list \<Rightarrow> rejection + permissionResponse" where
  "android_requestPermissions env permissionsModule permissionsResponse =
     (if sdkInt env \<ge> TIRAMISU then
        (if \<not> permissionsModule then Inr (getPermissionStatus env)
         else
           (let notificationGranted =
                  (orElse (map_of permissionsResponse POST_NOTIFICATIONS) PERMISSION_DENIED
                     = PERMISSION_GRANTED);
                locationGranted =
                  (orElse (map_of permissionsResponse ACCESS_FINE_LOCATION) PERMISSION_DENIED
                     = PERMISSION_GRANTED);
                allGranted = (notificationGranted \<and> locationGranted)
            in Inr \<lparr> status = (if allGranted then ''granted'' else ''denied''),
                     notifications = notificationGranted,
                     location = locationGranted \<rparr>))
      else
        (if \<not> permissionsModule then Inr (getPermissionStatus env)
         else
           (let locationGranted =
                  (orElse (map_of permissionsResponse ACCESS_FINE_LOCATION) PERMISSION_DENIED
                     = PERMISSION_GRANTED)
            in Inr \<lparr> status = (if locationGranted then ''granted'' else ''denied''),
                     notifications = True,
                     location = locationGranted \<rparr>)))"

definition android_getPermissionStatus :: "permissionEnv \<Rightarrow> rejection + permissionResponse" where
  "android_getPermissionStatus env = Inr (getPermissionStatus env)"

section \<open>iOS: ExpoPersistentNotificationsModule\<close>

text \<open>
  \<^verbatim>\<open>UNMutableNotificationContent\<close> with the fields the module sets, a request
  (every request of the module has the same 0.1 second, non-repeating trigger),
  and a category with its actions.
\<close>

record notificationContent =
  ncTitle :: string
  ncBody :: string
  ncBadge :: "rat option"
  ncSubtitle :: string
  ncSound :: bool
  ncThreadIdentifier :: string
  ncUserInfo :: jmap
  ncCategoryIdentifier :: string

definition emptyContent :: notificationContent where
  "emptyContent =
     \<lparr> ncTitle = '''', ncBody = '''', ncBadge = None, ncSubtitle = '''', ncSound = False,
       ncThreadIdentifier = '''', ncUserInfo = [], ncCategoryIdentifier = '''' \<rparr>"

record request =
  requestIdentifier :: string
  requestContent :: notificationContent

record notificationAction =
  actionIdentifier :: string
  actionTitle :: string
  actionForeground :: bool

record category =
  categoryIdentifier :: string
  categoryActions :: "notificationAction list"

text \<open>
  The module's two fields, the notification centre (pending requests,
  delivered notifications, registered categories), the error the centre's next
  \<^verbatim>\<open>add\<close> reports, if any, and the events sent to JavaScript (oldest first).
\<close>

record ios =
  activeNotifications :: "(string \<times> bool) list"
  notificationCategories :: "category list"
  pendingRequests :: "request list"
  deliveredNotifications :: "request list"
  centerCategories :: "category list"
  addError :: "string option"
  iosEvents :: "event list"

definition initialIos :: ios where
  "initialIos =
     \<lparr> activeNotifications = [], notificationCategories = [], pendingRequests = [],
       deliveredNotifications = [], centerCategories = [], addError = None,
       iosEvents = [] \<rparr>"

definition ios_sendEvent :: "event \<Rightarrow> ios \<Rightarrow> ios" where
  "ios_sendEvent e w = w\<lparr> iosEvents := iosEvents w @ [e] \<rparr>"

text \<open>\<^verbatim>\<open>add\<close> replaces a pending request with the same identifier; the result is
  the error handed to the completion handler.\<close>

definition centerAdd :: "request \<Rightarrow> ios \<Rightarrow> string option \<times> ios" where
  "centerAdd rq w =
     (case addError w of
        Some e \<Rightarrow> (Some e, w)
      | None \<Rightarrow>
          (None, w\<lparr> pendingRequests :=
                      filter (\<lambda>q. requestIdentifier q \<noteq> requestIdentifier rq) (pendingRequests w) @ [rq] \<rparr>))"

definition removePendingNotificationRequests :: "string list \<Rightarrow> ios \<Rightarrow> ios" where
  "removePendingNotificationRequests ids w =
     w\<lparr> pendingRequests := filter (\<lambda>q. requestIdentifier q \<notin> set ids) (pendingRequests w) \<rparr>"

definition removeDeliveredNotifications :: "string list \<Rightarrow> ios \<Rightarrow> ios" where
  "removeDeliveredNotifications ids w =
     w\<lparr> deliveredNotifications :=
          filter (\<lambda>q. requestIdentifier q \<notin> set ids) (deliveredNotifications w) \<rparr>"

text \<open>The trigger of a pending request fires: the notification is delivered.\<close>

definition fireTrigger :: "string \<Rightarrow> ios \<Rightarrow> ios" where
  "fireTrigger ident w =
     w\<lparr> pendingRequests := filter (\<lambda>q. requestIdentifier q \<noteq> ident) (pendingRequests w),
        deliveredNotifications :=
          filter (\<lambda>q. requestIdentifier q \<noteq> ident) (deliveredNotifications w)
            @ filter (\<lambda>q. requestIdentifier q = ident) (pendingRequests w) \<rparr>"

text \<open>The cast \<^verbatim>\<open>as? [[String: Any]]\<close> succeeds when every entry is a dictionary.\<close>

fun dictionaryOf :: "jvalue \<Rightarrow> jmap option" where
  "dictionaryOf (JMap m) = Some m"
| "dictionaryOf _ = None"

definition asListOfMaps :: "jvalue option \<Rightarrow> jmap list option" where
  "asListOfMaps v = (case asList v of None \<Rightarrow> None | Some xs \<Rightarrow> those (map dictionaryOf xs))"

text \<open>The loop of \<^verbatim>\<open>setupNotificationActions\<close> over \<^verbatim>\<open>actions.prefix(3)\<close>: an entry
  without a string \<^verbatim>\<open>id\<close> or \<^verbatim>\<open>title\<close> is skipped (\<^verbatim>\<open>continue\<close>).\<close>

fun notificationActionsOf :: "jmap list \<Rightarrow> notificationAction list" where
  "notificationActionsOf [] = []"
| "notificationActionsOf (action # rest) =
     (case asString (map_of action ''id'') of
        None \<Rightarrow> notificationActionsOf rest
      | Some actionId \<Rightarrow>
          (case asString (map_of action ''title'') of
             None \<Rightarrow> notificationActionsOf rest
           | Some title \<Rightarrow>
               \<lparr> actionIdentifier = actionId, actionTitle = title,
                 actionForeground = orElse (asBoolean (map_of action ''foreground'')) False \<rparr>
               # notificationActionsOf rest))"

definition setupNotificationActions :: "jmap list \<Rightarrow> string \<Rightarrow> ios \<Rightarrow> string \<times> ios" where
  "setupNotificationActions actions notificationId w =
     (let notificationActions = notificationActionsOf (take 3 actions);
          categoryId = ''category_'' @ notificationId;
          cat = \<lparr> categoryIdentifier = categoryId, categoryActions = notificationActions \<rparr>;
          categories = List.insert cat (notificationCategories w)
      in (categoryId, w\<lparr> notificationCategories := categories,
                          centerCategories := categories \<rparr>))"

definition applyIosOptions :: "jmap \<Rightarrow> notificationContent \<Rightarrow> notificationContent" where
  "applyIosOptions options nc =
     (case asMap (map_of options ''ios'') of
        None \<Rightarrow> nc
      | Some iosOptions \<Rightarrow>
          (let nc1 = (case asNumber (map_of iosOptions ''badge'') of
                        None \<Rightarrow> nc
                      | Some badge \<Rightarrow> nc\<lparr> ncBadge := Some badge \<rparr>);
               nc2 = (case asString (map_of iosOptions ''subtitle'') of
                        None \<Rightarrow> nc1
                      | Some subtitle \<Rightarrow> nc1\<lparr> ncSubtitle := subtitle \<rparr>);
               nc3 = (if asString (map_of iosOptions ''sound'') = Some ''default''
                      then nc2\<lparr> ncSound := True \<rparr>
                      else if map_of iosOptions ''sound'' \<noteq> None
                      then nc2\<lparr> ncSound := True \<rparr>
                      else nc2)
           in case asString (map_of iosOptions ''threadIdentifier'') of
                None \<Rightarrow> nc3
              | Some threadId \<Rightarrow> nc3\<lparr> ncThreadIdentifier := threadId \<rparr>))"

text \<open>The \<^verbatim>\<open>guard let\<close> of \<^verbatim>\<open>startPersistentNotification\<close>: four bindings, one
  \<^verbatim>\<open>else\<close>.\<close>

definition startGuard :: "jmap \<Rightarrow> (jmap \<times> string \<times> string \<times> string) option" where
  "startGuard options =
     (case asMap (map_of options ''content'') of
        None \<Rightarrow> None
      | Some cont \<Rightarrow>
     (case asString (map_of options ''id'') of
        None \<Rightarrow> None
      | Some ident \<Rightarrow>
     (case asString (map_of cont ''title'') of
        None \<Rightarrow> None
      | Some title \<Rightarrow>
     (case asString (map_of cont ''body'') of
        None \<Rightarrow> None
      | Some body \<Rightarrow> Some (cont, ident, title, body)))))"

definition ios_startPersistentNotification :: "jmap \<Rightarrow> ios \<Rightarrow> (rejection + unit) \<times> ios" where
  "ios_startPersistentNotification options w =
     (case startGuard options of
        None \<Rightarrow> (Inl (Rejection ''ERR_INVALID_OPTIONS'' ''Invalid notification options''), w)
      | Some (cont, ident, title, body) \<Rightarrow>
          (let nc1 = applyIosOptions options (emptyContent\<lparr> ncTitle := title, ncBody := body \<rparr>);
               nc2 = (case asMap (map_of cont ''data'') of
                        None \<Rightarrow> nc1
                      | Some d \<Rightarrow> nc1\<lparr> ncUserInfo := d \<rparr>);
               (nc3, w1) = (case asListOfMaps (map_of options ''actions'') of
                              None \<Rightarrow> (nc2, w)
                            | Some actions \<Rightarrow>
                                (let (categoryId, w') = setupNotificationActions actions ident w
                                 in (nc2\<lparr> ncCategoryIdentifier := categoryId \<rparr>, w')));
               (err, w2) = centerAdd \<lparr> requestIdentifier = ident, requestContent = nc3 \<rparr> w1
           in case err of
                Some e \<Rightarrow> (Inl (Rejection ''ERR_ADD_NOTIFICATION'' e), w2)
              | None \<Rightarrow>
                  (Inr (),
                   ios_sendEvent (OnServiceStatusChange True (Some ident))
                     (w2\<lparr> activeNotifications :=
                            AList.update ident True (activeNotifications w2) \<rparr>))))"

text \<open>The \<^verbatim>\<open>guard let\<close> of \<^verbatim>\<open>updateNotificationContent\<close>.\<close>

definition contentGuard :: "jmap \<Rightarrow> (string \<times> string) option" where
  "contentGuard cont =
     (case asString (map_of cont ''title'') of
        None \<Rightarrow> None
      | Some title \<Rightarrow>
     (case asString (map_of cont ''body'') of
        None \<Rightarrow> None
      | Some body \<Rightarrow> Some (title, body)))"

definition ios_updateNotificationContent ::
  "string \<Rightarrow> jmap \<Rightarrow> ios \<Rightarrow> (rejection + unit) \<times> ios" where
  "ios_updateNotificationContent ident cont w =
     (case contentGuard cont of
        None \<Rightarrow> (Inl (Rejection ''ERR_INVALID_CONTENT'' ''Invalid notification content''), w)
      | Some (title, body) \<Rightarrow>
          (let existingRequest = find (\<lambda>q. requestIdentifier q = ident) (pendingRequests w);
               nc0 = emptyContent\<lparr> ncTitle := title, ncBody := body \<rparr>;
               nc1 = (case existingRequest of
                        None \<Rightarrow> nc0
                      | Some q \<Rightarrow>
                          nc0\<lparr> ncCategoryIdentifier := ncCategoryIdentifier (requestContent q) \<rparr>);
               nc2 = (case existingRequest of
                        None \<Rightarrow> nc1
                      | Some q \<Rightarrow>
                          (case ncBadge (requestContent q) of
                             None \<Rightarrow> nc1
                           | Some badge \<Rightarrow> nc1\<lparr> ncBadge := Some badge \<rparr>));
               nc3 = (case asMap (map_of cont ''data'') of
                        None \<Rightarrow> nc2
                      | Some d \<Rightarrow> nc2\<lparr> ncUserInfo := d \<rparr>);
               (err, w1) = centerAdd \<lparr> requestIdentifier = ident, requestContent = nc3 \<rparr> w
           in case err of
                Some e \<Rightarrow> (Inl (Rejection ''ERR_UPDATE_NOTIFICATION'' e), w1)
              | None \<Rightarrow> (Inr (), ios_sendEvent (OnNotificationUpdate ident) w1)))"

definition ios_updateNotificationActions ::
  "string \<Rightarrow> jmap list \<Rightarrow> ios \<Rightarrow> (rejection + unit) \<times> ios" where
  "ios_updateNotificationActions ident actions w =
     (case find (\<lambda>q. requestIdentifier q = ident) (pendingRequests w) of
        None \<Rightarrow> (Inl (Rejection ''ERR_NOTIFICATION_NOT_FOUND'' ''Notification not found''), w)
      | Some existingRequest \<Rightarrow>
          (let (newCategoryId, w1) = setupNotificationActions actions ident w;
               nc = (requestContent existingRequest)\<lparr> ncCategoryIdentifier := newCategoryId \<rparr>;
               (err, w2) = centerAdd \<lparr> requestIdentifier = ident, requestContent = nc \<rparr> w1
           in case err of
                Some e \<Rightarrow> (Inl (Rejection ''ERR_UPDATE_ACTIONS'' e), w2)
              | None \<Rightarrow> (Inr (), w2)))"

definition ios_stopPersistentNotification :: "string \<Rightarrow> ios \<Rightarrow> (rejection + unit) \<times> ios" where
  "ios_stopPersistentNotification ident w =
     (let w1 = removePendingNotificationRequests [ident] w;
          w2 = removeDeliveredNotifications [ident] w1;
          w3 = w2\<lparr> activeNotifications := AList.update ident False (activeNotifications w2) \<rparr>
      in (Inr (), ios_sendEvent (OnServiceStatusChange False (Some ident)) w3))"

definition ios_isNotificationActive :: "string \<Rightarrow> ios \<Rightarrow> rejection + bool" where
  "ios_isNotificationActive ident w =
     (let isActive = list_ex (\<lambda>q. requestIdentifier q = ident) (pendingRequests w) in Inr isActive)"

text \<open>\<^verbatim>\<open>requestAuthorization\<close> answers with \<open>granted\<close> and an optional error;
  \<^verbatim>\<open>getNotificationSettings\<close> with the authorization status.\<close>

definition ios_requestPermissions :: "bool \<Rightarrow> string option \<Rightarrow> rejection + permissionResponse" where
  "ios_requestPermissions granted error =
     (case error of
        Some e \<Rightarrow> Inl (Rejection ''ERR_REQUEST_PERMISSIONS'' e)
      | None \<Rightarrow>
          Inr \<lparr> status = (if granted then ''granted'' else ''denied''),
                notifications = granted,
                location = False \<rparr>)"

datatype authorizationStatus =
  Authorized | Provisional | Ephemeral | Denied | NotDetermined | UnknownStatus

fun ios_getPermissionStatus :: "authorizationStatus \<Rightarrow> rejection + permissionResponse" where
  "ios_getPermissionStatus Denied =
     Inr \<lparr> status = ''denied'', notifications = False, location = False \<rparr>"
| "ios_getPermissionStatus NotDetermined =
     Inr \<lparr> status = ''undetermined'', notifications = False, location = False \<rparr>"
| "ios_getPermissionStatus UnknownStatus =
     Inr \<lparr> status = ''undetermined'', notifications = False, location = False \<rparr>"
| "ios_getPermissionStatus _ =
     Inr \<lparr> status = ''granted'', notifications = True, location = False \<rparr>"


section \<open>Well-formed input\<close>

text \<open>
  The TypeScript interface \<^verbatim>\<open>NotificationAction\<close> requires a string \<^verbatim>\<open>id\<close> and a
  string \<^verbatim>\<open>title\<close>; \<^verbatim>\<open>PersistentNotificationOptions\<close> makes \<^verbatim>\<open>actions\<close> an optional
  array of them.  The lifecycle's precondition for \<^verbatim>\<open>start\<close> adds that the id, the
  title and the body are not empty.
\<close>

definition actionIdOf :: "jvalue \<Rightarrow> string option" where
  "actionIdOf a = (case a of JMap m \<Rightarrow> asString (map_of m ''id'') | _ \<Rightarrow> None)"

definition actionTitleOf :: "jvalue \<Rightarrow> string option" where
  "actionTitleOf a = (case a of JMap m \<Rightarrow> asString (map_of m ''title'') | _ \<Rightarrow> None)"

definition validAction :: "jvalue \<Rightarrow> bool" where
  "validAction a = (actionIdOf a \<noteq> None \<and> actionTitleOf a \<noteq> None)"

definition validActions :: "jmap \<Rightarrow> bool" where
  "validActions options =
     (case map_of options ''actions'' of
        None \<Rightarrow> True
      | Some (JList as) \<Rightarrow> list_all validAction as
      | Some _ \<Rightarrow> False)"



text \<open>The tick of the update runnable of the running service is pending.\<close>

definition timerArmed :: "android \<Rightarrow> bool" where
  "timerArmed w =
     (case live w of
        None \<Rightarrow> False
      | Some i \<Rightarrow>
          (case handler (services w i) of
             None \<Rightarrow> False
           | Some h \<Rightarrow>
               (case updateRunnable (services w i) of
                  None \<Rightarrow> False
                | Some r \<Rightarrow>
                    list_ex (\<lambda>p. postHandler p = h \<and> postService p = i \<and>
                                  postTask p = UpdateRunnable r) (looper w))))"

text \<open>The deadline of the running service, if a service runs.\<close>

definition arrivalDeadline :: "android \<Rightarrow> int option" where
  "arrivalDeadline w = map_option (\<lambda>i. arrivalTimeMillis (services w i)) (live w)"

text \<open>Inputs used to exercise the model.\<close>

definition busContent :: jvalue where
  "busContent = JMap [(''title'', JStr ''Tracking''), (''body'', JStr ''Next bus'')]"

definition fiveActions :: "jvalue list" where
  "fiveActions =
     [JMap [(''id'', JStr ''a1''), (''title'', JStr ''One'')],
      JMap [(''id'', JStr ''a2''), (''title'', JStr ''Two''), (''foreground'', JBool True)],
      JMap [(''id'', JStr ''a3''), (''title'', JStr ''Three'')],
      JMap [(''id'', JStr ''a4''), (''title'', JStr ''Four'')],
      JMap [(''id'', JStr ''a5''), (''title'', JStr ''Five'')]]"

definition busOptions :: jmap where
  "busOptions =
     [(''id'', JStr ''bus''), (''arrivalMinutes'', JNum 5), (''content'', busContent),
      (''actions'', JList fiveActions)]"

definition plainOptions :: jmap where
  "plainOptions = [(''id'', JStr ''plain''), (''content'', busContent)]"

definition emptyOptions :: jmap where
  "emptyOptions =
     [(''id'', JStr ''''), (''content'', JMap [(''title'', JStr ''''), (''body'', JStr '''')])]"


text \<open>A running flag is never set without a service the system runs.\<close>

definition serviceConsistent :: "android \<Rightarrow> bool" where
  "serviceConsistent w = (isRunning w \<longrightarrow> live w \<noteq> None)"

text \<open>The state after a first start that the system delivers at time 1000, and
  the state after a second start, delivered at time 2000, followed by a stop
  that the system then carries out.\<close>

definition tickState :: android where
  "tickState =
     systemStep 1000 (snd (android_startPersistentNotification busOptions initialAndroid))"

definition staleState :: android where
  "staleState =
     systemStep 2500
       (snd (android_stopPersistentNotification ''plain''
          (systemStep 2000 (snd (android_startPersistentNotification plainOptions tickState)))))"


section \<open>Basic facts\<close>

subsection \<open>Actions on the Android notification\<close>

lemma validAction_JMap:
  "validAction a \<Longrightarrow>
     \<exists>m i t. a = JMap m \<and> asString (map_of m ''id'') = Some i \<and>
             asString (map_of m ''title'') = Some t"
  by (cases a) (auto simp: validAction_def actionIdOf_def actionTitleOf_def)

lemma addActions_valid:
  "list_all validAction xs \<Longrightarrow>
     \<exists>bs. addActions opts c xs = Inr bs \<and>
          map (\<lambda>b. (Some (buttonActionId b), Some (buttonTitle b))) bs =
          map (\<lambda>a. (actionIdOf a, actionTitleOf a)) xs"
proof (induction xs)
  case Nil
  then show ?case by simp
next
  case (Cons a xs)
  from Cons.prems have "validAction a" and rest: "list_all validAction xs" by simp_all
  from validAction_JMap [OF this(1)] obtain m i t
    where a: "a = JMap m" "asString (map_of m ''id'') = Some i"
      "asString (map_of m ''title'') = Some t"
    by blast
  from Cons.IH [OF rest] obtain bs
    where bs: "addActions opts c xs = Inr bs"
      "map (\<lambda>b. (Some (buttonActionId b), Some (buttonTitle b))) bs =
       map (\<lambda>a. (actionIdOf a, actionTitleOf a)) xs"
    by blast
  show ?case
    using a bs by (simp add: actionButtonOf_def actionIdOf_def actionTitleOf_def)
qed

lemma list_all_take: "list_all P xs \<Longrightarrow> list_all P (take k xs)"
  by (auto simp: list_all_iff dest: in_set_takeD)

lemma buildNotification_buttons:
  assumes "asList (map_of options ''actions'') = Some as" and "list_all validAction as"
  shows "\<exists>n. buildNotification options = Inr n \<and>
          map (\<lambda>b. (Some (buttonActionId b), Some (buttonTitle b))) (buttons n) =
          map (\<lambda>a. (actionIdOf a, actionTitleOf a)) (take 3 as)"
proof -
  from addActions_valid [OF list_all_take [OF assms(2)]]
  obtain bs where
    "addActions options (orElse (asMap (map_of options ''content'')) []) (take 3 as) = Inr bs"
    "map (\<lambda>b. (Some (buttonActionId b), Some (buttonTitle b))) bs =
     map (\<lambda>a. (actionIdOf a, actionTitleOf a)) (take 3 as)"
    by blast
  then show ?thesis
    using assms(1) by (simp add: buildNotification_def Let_def)
qed

lemma buildNotification_valid:
  assumes "validActions options"
  shows "\<exists>n. buildNotification options = Inr n"
proof (cases "map_of options ''actions''")
  case None
  then show ?thesis by (simp add: buildNotification_def Let_def)
next
  case (Some v)
  with assms obtain as where v: "v = JList as" and "list_all validAction as"
    by (cases v) (auto simp: validActions_def)
  with Some buildNotification_buttons [of options as] show ?thesis by auto
qed


subsection \<open>The iOS notification centre\<close>

lemma setupNotificationActions_frame [simp]:
  "pendingRequests (snd (setupNotificationActions actions ident v)) = pendingRequests v"
  "addError (snd (setupNotificationActions actions ident v)) = addError v"
  "iosEvents (snd (setupNotificationActions actions ident v)) = iosEvents v"
  by (simp_all add: setupNotificationActions_def Let_def)


lemma startGuard_None:
  "startGuard options = None \<longleftrightarrow>
     (asMap (map_of options ''content'') = None \<or> asString (map_of options ''id'') = None \<or>
      (\<exists>cont. asMap (map_of options ''content'') = Some cont \<and>
         (asString (map_of cont ''title'') = None \<or> asString (map_of cont ''body'') = None)))"
  by (auto simp: startGuard_def split: option.splits)

lemma ios_start_invalid:
  "startGuard options = None \<Longrightarrow>
     ios_startPersistentNotification options v =
       (Inl (Rejection ''ERR_INVALID_OPTIONS'' ''Invalid notification options''), v)"
  by (simp add: ios_startPersistentNotification_def)

lemma ios_start_guarded:
  assumes "startGuard options = Some g"
  shows "fst (ios_startPersistentNotification options v) \<noteq>
           Inl (Rejection ''ERR_INVALID_OPTIONS'' msg)"
proof -
  obtain cont ident title body where g: "g = (cont, ident, title, body)" by (cases g) auto
  show ?thesis
    using assms g
    by (cases "asListOfMaps (map_of options ''actions'')"; cases "addError v")
       (simp_all add: ios_startPersistentNotification_def Let_def centerAdd_def split_beta)
qed



lemma ios_stop_inactive:
  "fst (ios_stopPersistentNotification ident v) = Inr ()"
  "ios_isNotificationActive ident (snd (ios_stopPersistentNotification ident v)) = Inr False"
  by (auto simp: ios_stopPersistentNotification_def ios_isNotificationActive_def Let_def
        ios_sendEvent_def list_ex_iff removePendingNotificationRequests_def
        removeDeliveredNotifications_def)

lemma ios_stop_addError: "addError (snd (ios_stopPersistentNotification ident v)) = addError v"
  by (simp add: ios_stopPersistentNotification_def Let_def ios_sendEvent_def
       removePendingNotificationRequests_def removeDeliveredNotifications_def)

lemma ios_update_new:
  assumes t: "asString (map_of cont ''title'') = Some t"
      and b: "asString (map_of cont ''body'') = Some b"
      and e: "addError v = None"
      and n: "ios_isNotificationActive ident v = Inr False"
  shows "fst (ios_updateNotificationContent ident cont v) = Inr ()"
    and "\<exists>nc. pendingRequests (snd (ios_updateNotificationContent ident cont v)) =
               pendingRequests v @ [\<lparr> requestIdentifier = ident, requestContent = nc \<rparr>] \<and>
               ncTitle nc = t \<and> ncBody nc = b \<and> ncCategoryIdentifier nc = '''' \<and>
               ncBadge nc = None"
    and "iosEvents (snd (ios_updateNotificationContent ident cont v)) =
           iosEvents v @ [OnNotificationUpdate ident]"
    and "ios_isNotificationActive ident (snd (ios_updateNotificationContent ident cont v))
           = Inr True"
proof -
  from t b have g: "contentGuard cont = Some (t, b)" by (simp add: contentGuard_def)
  from n have none: "\<forall>q \<in> set (pendingRequests v). requestIdentifier q \<noteq> ident"
    by (simp add: ios_isNotificationActive_def list_ex_iff)
  then have f: "find (\<lambda>q. requestIdentifier q = ident) (pendingRequests v) = None"
    by (simp add: find_None_iff)
  from none have k:
    "filter (\<lambda>q. requestIdentifier q \<noteq> ident) (pendingRequests v) = pendingRequests v"
    by (simp add: filter_id_conv)
  show "fst (ios_updateNotificationContent ident cont v) = Inr ()"
    using g f e by (simp add: ios_updateNotificationContent_def Let_def centerAdd_def)
  show "\<exists>nc. pendingRequests (snd (ios_updateNotificationContent ident cont v)) =
               pendingRequests v @ [\<lparr> requestIdentifier = ident, requestContent = nc \<rparr>] \<and>
               ncTitle nc = t \<and> ncBody nc = b \<and> ncCategoryIdentifier nc = '''' \<and>
               ncBadge nc = None"
    using g f e k
    by (cases "asMap (map_of cont ''data'')")
       (simp_all add: ios_updateNotificationContent_def Let_def centerAdd_def ios_sendEvent_def
          emptyContent_def)
  show "iosEvents (snd (ios_updateNotificationContent ident cont v)) =
           iosEvents v @ [OnNotificationUpdate ident]"
    using g f e
    by (simp add: ios_updateNotificationContent_def Let_def centerAdd_def ios_sendEvent_def)
  show "ios_isNotificationActive ident (snd (ios_updateNotificationContent ident cont v))
          = Inr True"
    using g f e
    by (simp add: ios_updateNotificationContent_def Let_def centerAdd_def ios_sendEvent_def
          ios_isNotificationActive_def list_ex_iff)
qed

subsection \<open>Actions in the iOS category\<close>



lemma ios_start_category:
  assumes g: "startGuard options = Some (cont, ident, title, body)"
      and a: "asListOfMaps (map_of options ''actions'') = Some ms"
      and e: "addError v = None"
  shows "fst (ios_startPersistentNotification options v) = Inr ()"
    and "\<lparr> categoryIdentifier = ''category_'' @ ident,
           categoryActions = notificationActionsOf (take 3 ms) \<rparr>
         \<in> set (centerCategories (snd (ios_startPersistentNotification options v)))"
  using g a e
  by (simp_all add: ios_startPersistentNotification_def Let_def split_beta centerAdd_def
        setupNotificationActions_def ios_sendEvent_def)

subsection \<open>Machine arithmetic in range\<close>

lemma wrap32_id: "- 2147483648 \<le> x \<Longrightarrow> x \<le> 2147483647 \<Longrightarrow> wrap32 x = x"
  by (simp add: wrap32_def)

lemma wrap64_id:
  "- 9223372036854775808 \<le> x \<Longrightarrow> x \<le> 9223372036854775807 \<Longrightarrow> wrap64 x = x"
  by (simp add: wrap64_def)

lemma toInt_of_int:
  "- 2147483648 \<le> k \<Longrightarrow> k \<le> 2147483647 \<Longrightarrow> toInt (of_int k) = k"
  by (simp add: toInt_def truncateTowardsZero_def)

lemma deadline_in_range:
  assumes "0 \<le> now" and "now < 4611686018427387904"
      and "- 35791394 \<le> k" and "k \<le> 35791394"
  shows "wrap64 (now + wrap64 (wrap32 (k * 60) * 1000)) = now + k * 60000"
proof -
  from assms(3,4) have a: "wrap32 (k * 60) = k * 60" by (intro wrap32_id) simp_all
  from assms(3,4) have b: "wrap64 (k * 60 * 1000) = k * 60 * 1000" by (intro wrap64_id) simp_all
  from assms have "wrap64 (now + k * 60 * 1000) = now + k * 60 * 1000"
    by (intro wrap64_id) simp_all
  with a b show ?thesis by simp
qed

subsection \<open>Rendering on a tick\<close>

lemma buildNotification_content:
  assumes "buildNotification options = Inr n"
  shows "contentTitle n =
           orElse (asString (map_of (orElse (asMap (map_of options ''content'')) []) ''title''))
             ''''"
    and "contentText n =
           orElse (asString (map_of (orElse (asMap (map_of options ''content'')) []) ''body''))
             ''''"
  using assms
  by (auto simp: buildNotification_def Let_def split: sum.splits option.splits)

lemma validActions_update_content:
  "validActions (AList.update ''content'' v opts) = validActions opts"
  by (simp add: validActions_def update_conv')

lemma updateNotificationWithTime_renders:
  assumes opts: "notificationOptions (services w i) = Some opts"
      and ok: "validActions opts"
  shows "\<exists>n. posted (updateNotificationWithTime i minutes w) = n # posted w \<and>
             shown (updateNotificationWithTime i minutes w) = Some n \<and>
             contentTitle n = arrivalTitle \<and> contentText n = arrivalBody minutes"
proof -
  let ?u = "AList.update ''content''
              (JMap [(''title'', JStr arrivalTitle), (''body'', JStr (arrivalBody minutes))]) opts"
  from ok have "validActions ?u" by (simp add: validActions_update_content)
  from buildNotification_valid [OF this] obtain n where n: "buildNotification ?u = Inr n"
    by blast
  from buildNotification_content [OF n]
  have "contentTitle n = arrivalTitle" "contentText n = arrivalBody minutes"
    by (simp_all add: update_conv')
  with opts n show ?thesis
    by (simp add: updateNotificationWithTime_def Let_def notify_def modifyService_def)
qed

lemma postDelayed_frame [simp]:
  "posted (postDelayed i t d w) = posted w" "shown (postDelayed i t d w) = shown w"
  by (simp_all add: postDelayed_def split: option.splits)

lemma ceiling_minutes_in_range:
  assumes "0 < ms" and "ms \<le> 2147483647 * 60000"
  shows "toInt (of_int \<lceil>(of_int ms :: rat) / 60000\<rceil>) = \<lceil>(of_int ms :: rat) / 60000\<rceil>"
    and "1 \<le> \<lceil>(of_int ms :: rat) / 60000\<rceil>"
proof -
  from assms(1) have "0 < (of_int ms :: rat) / 60000" by simp
  then have "0 < \<lceil>(of_int ms :: rat) / 60000\<rceil>" by simp
  then show p: "1 \<le> \<lceil>(of_int ms :: rat) / 60000\<rceil>" by simp
  from assms(2) have "(of_int ms :: rat) \<le> of_int (2147483647 * 60000)"
    by (simp only: of_int_le_iff)
  then have "(of_int ms :: rat) / 60000 \<le> of_int 2147483647" by simp
  then have "\<lceil>(of_int ms :: rat) / 60000\<rceil> \<le> 2147483647" by (simp only: ceiling_le_iff)
  with p show "toInt (of_int \<lceil>(of_int ms :: rat) / 60000\<rceil>) = \<lceil>(of_int ms :: rat) / 60000\<rceil>"
    by (intro toInt_of_int) simp_all
qed

subsection \<open>Cancelling the timer\<close>

lemma stopAutoUpdate_removes_current:
  assumes "handler (services w i) = Some h" and "updateRunnable (services w i) = Some r"
  shows "\<not> list_ex (\<lambda>p. postHandler p = h \<and> postTask p = UpdateRunnable r)
             (looper (stopAutoUpdate i w))"
  using assms
  by (simp add: stopAutoUpdate_def Let_def modifyService_def list_ex_iff)


subsection \<open>Handing requests to the system\<close>

lemma android_start_call:
  "startServiceThrows w = None \<Longrightarrow>
     android_startPersistentNotification options w =
       (Inr (),
        w\<lparr> pendingCommands := pendingCommands w @ [StartCommand (startIntent options)],
           events := events w @ [OnServiceStatusChange True (asString (map_of options ''id''))] \<rparr>)"
  by (simp add: android_startPersistentNotification_def startService_def sendEvent_def Let_def)

lemma android_start_rejected:
  "fst (android_startPersistentNotification options w) = Inr () \<longleftrightarrow>
     startServiceThrows w = None"
  by (simp add: android_startPersistentNotification_def Let_def split: option.splits)

lemma android_stop_call:
  "stopServiceThrows w = None \<Longrightarrow>
     android_stopPersistentNotification ident w =
       (Inr (),
        w\<lparr> pendingCommands := pendingCommands w @ [StopCommand],
           events := events w @ [OnServiceStatusChange False (Some ident)] \<rparr>)"
  by (simp add: android_stopPersistentNotification_def stopService_def sendEvent_def Let_def)

lemma android_stop_throws:
  "stopServiceThrows w = Some msg \<Longrightarrow>
     android_stopPersistentNotification ident w =
       (Inl (Rejection ''ERR_STOP_NOTIFICATION'' msg), w)"
  by (simp add: android_stopPersistentNotification_def)

subsection \<open>The system carries a request out\<close>


lemma deliver_start_timer:
  "timerArmed (deliverCommand (StartCommand (startIntent options)) now w)"
  "arrivalDeadline (deliverCommand (StartCommand (startIntent options)) now w) =
     Some (wrap64 (now + wrap64 (wrap32
       (orElse (map_option toInt (asNumber (map_of options ''arrivalMinutes''))) 5 * 60)
         * 1000)))"
  by (simp_all add: deliverCommand_def startIntent_def onStartCommand_def
      startForegroundNotification_def startAutoUpdate_def postDelayed_def modifyService_def
      notify_def Let_def stopSelf_def timerArmed_def arrivalDeadline_def
      split: option.splits sum.splits)

lemma deliver_stop_live: "live (deliverCommand StopCommand now w) = None"
  by (simp add: deliverCommand_def split: option.splits)

lemma deliver_stop_idle: "live w = None \<Longrightarrow> deliverCommand StopCommand now w = w"
  by (simp add: deliverCommand_def)

lemma deliver_stop_twice:
  "deliverCommand StopCommand t2 (deliverCommand StopCommand t1 w) =
     deliverCommand StopCommand t1 w"
  by (simp add: deliver_stop_idle deliver_stop_live)


lemma systemStep_single:
  "pendingCommands w = [c] \<Longrightarrow>
     systemStep now w = deliverCommand c now (w\<lparr> pendingCommands := [] \<rparr>)"
  by (simp add: systemStep_def)

subsection \<open>The running flag implies a live service\<close>






lemma updateNotificationWithTime_flags:
  "isRunning (updateNotificationWithTime i m w) = isRunning w"
  "live (updateNotificationWithTime i m w) = live w"
  by (simp_all add: updateNotificationWithTime_def modifyService_def notify_def Let_def
      split: option.splits sum.splits)

lemma postDelayed_flags:
  "isRunning (postDelayed i t d w) = isRunning w" "live (postDelayed i t d w) = live w"
  by (simp_all add: postDelayed_def split: option.splits)

lemma serviceConsistent_dispatch:
  assumes "serviceConsistent w"
  shows "serviceConsistent (dispatch k now w)"
proof (cases "k < length (looper w)")
  case False
  with assms show ?thesis by (simp add: dispatch_def)
next
  case True
  let ?w = "w\<lparr> looper := take k (looper w) @ drop (Suc k) (looper w) \<rparr>"
  from assms have c: "serviceConsistent ?w" by (simp add: serviceConsistent_def)
  show ?thesis
  proof (cases "postTask (looper w ! k)")
    case (UpdateRunnable r)
    with True c show ?thesis
      by (simp add: dispatch_def runPost_def run_def Let_def serviceConsistent_def
            postDelayed_flags updateNotificationWithTime_flags)
  next
    case GraceLambda
    with True show ?thesis
      by (simp add: dispatch_def runPost_def stopForegroundService_def stopSelf_def
            modifyService_def serviceConsistent_def)
  qed
qed


subsection \<open>The request and the category after an iOS start\<close>



section \<open>Permissions\<close>

text \<open>
  Claim C3, as the spec states it, asks that the overall status be granted only when
  notifications and location are both granted.  The iOS module never looks at
  the location permission: it reports \<^verbatim>\<open>location: false\<close> and takes the status
  from the notification authorization alone.
\<close>

theorem ios_status_granted_without_location:
  "ios_requestPermissions True None =
     Inr \<lparr> status = ''granted'', notifications = True, location = False \<rparr>"
  by (simp add: ios_requestPermissions_def)

lemma getPermissionStatus_fields:
  "notifications (getPermissionStatus env) = (sdkInt env \<ge> 33 \<longrightarrow> postNotificationsGranted env)"
  "location (getPermissionStatus env) = fineLocationGranted env"
  "status (getPermissionStatus env) = ''granted'' \<longleftrightarrow>
     notifications (getPermissionStatus env) \<and> location (getPermissionStatus env)"
  "status (getPermissionStatus env) = ''denied'' \<longleftrightarrow>
     \<not> (notifications (getPermissionStatus env) \<and> location (getPermissionStatus env))"
  by (auto simp: getPermissionStatus_def TIRAMISU_def Let_def)

lemma answer_granted:
  "(orElse (map_of resp p) PERMISSION_DENIED = PERMISSION_GRANTED) \<longleftrightarrow>
     map_of resp p = Some PERMISSION_GRANTED"
  by (cases "map_of resp p") (simp_all add: PERMISSION_DENIED_def PERMISSION_GRANTED_def)

lemma android_requestPermissions_fields:
  "\<exists>r. android_requestPermissions env pm resp = Inr r \<and>
       notifications r =
         (if pm then sdkInt env \<ge> 33 \<longrightarrow> map_of resp POST_NOTIFICATIONS = Some PERMISSION_GRANTED
          else sdkInt env \<ge> 33 \<longrightarrow> postNotificationsGranted env) \<and>
       location r =
         (if pm then map_of resp ACCESS_FINE_LOCATION = Some PERMISSION_GRANTED
          else fineLocationGranted env) \<and>
       (status r = ''granted'' \<longleftrightarrow> notifications r \<and> location r) \<and>
       (status r = ''denied'' \<longleftrightarrow> \<not> (notifications r \<and> location r))"
proof (cases pm)
  case False
  then have "android_requestPermissions env pm resp = Inr (getPermissionStatus env)"
    by (simp add: android_requestPermissions_def)
  with False getPermissionStatus_fields [of env] show ?thesis by auto
next
  case True
  then show ?thesis
    by (cases "sdkInt env \<ge> 33")
       (simp_all add: android_requestPermissions_def TIRAMISU_def Let_def answer_granted)
qed

lemma ios_getPermissionStatus_fields:
  "\<exists>r. ios_getPermissionStatus auth = Inr r \<and>
       notifications r = (auth = Authorized \<or> auth = Provisional \<or> auth = Ephemeral) \<and>
       location r = False \<and>
       (status r = ''granted'' \<longleftrightarrow> notifications r) \<and>
       (status r = ''denied'' \<longleftrightarrow> auth = Denied)"
  by (cases auth) simp_all

text \<open>
  Claim C3, amended: on Android every query and every request result has status
  granted exactly when the notifications and the location fields are both true,
  and denied exactly otherwise, the two fields reporting each permission on its
  own: for a query what \<^verbatim>\<open>checkSelfPermission\<close> says, for a request what the user
  answered (the current status when the permissions module is missing), with
  notifications always true before Android 13.  So notifications granted with
  location denied gives status denied, notifications true, location false.  On
  iOS the location field is always false and the status is granted exactly when
  notifications are granted.
\<close>

theorem permission_status_reduction:
  "(\<exists>r. android_getPermissionStatus env = Inr r \<and>
        notifications r = (sdkInt env \<ge> 33 \<longrightarrow> postNotificationsGranted env) \<and>
        location r = fineLocationGranted env \<and>
        (status r = ''granted'' \<longleftrightarrow> notifications r \<and> location r) \<and>
        (status r = ''denied'' \<longleftrightarrow> \<not> (notifications r \<and> location r)))
   \<and> (\<exists>r. android_requestPermissions env1 pm resp = Inr r \<and>
        notifications r =
          (if pm then sdkInt env1 \<ge> 33 \<longrightarrow> map_of resp POST_NOTIFICATIONS = Some PERMISSION_GRANTED
           else sdkInt env1 \<ge> 33 \<longrightarrow> postNotificationsGranted env1) \<and>
        location r =
          (if pm then map_of resp ACCESS_FINE_LOCATION = Some PERMISSION_GRANTED
           else fineLocationGranted env1) \<and>
        (status r = ''granted'' \<longleftrightarrow> notifications r \<and> location r) \<and>
        (status r = ''denied'' \<longleftrightarrow> \<not> (notifications r \<and> location r)))
   \<and> ios_requestPermissions granted None =
        Inr \<lparr> status = (if granted then ''granted'' else ''denied''),
              notifications = granted, location = False \<rparr>
   \<and> ios_requestPermissions granted (Some e) = Inl (Rejection ''ERR_REQUEST_PERMISSIONS'' e)
   \<and> (\<exists>r. ios_getPermissionStatus auth = Inr r \<and>
        notifications r = (auth = Authorized \<or> auth = Provisional \<or> auth = Ephemeral) \<and>
        location r = False \<and>
        (status r = ''granted'' \<longleftrightarrow> notifications r) \<and>
        (status r = ''denied'' \<longleftrightarrow> auth = Denied))"
proof (intro conjI)
  show "\<exists>r. android_getPermissionStatus env = Inr r \<and>
        notifications r = (sdkInt env \<ge> 33 \<longrightarrow> postNotificationsGranted env) \<and>
        location r = fineLocationGranted env \<and>
        (status r = ''granted'' \<longleftrightarrow> notifications r \<and> location r) \<and>
        (status r = ''denied'' \<longleftrightarrow> \<not> (notifications r \<and> location r))"
    using getPermissionStatus_fields [of env]
    by (auto simp: android_getPermissionStatus_def)
next
  show "\<exists>r. android_requestPermissions env1 pm resp = Inr r \<and>
        notifications r =
          (if pm then sdkInt env1 \<ge> 33 \<longrightarrow> map_of resp POST_NOTIFICATIONS = Some PERMISSION_GRANTED
           else sdkInt env1 \<ge> 33 \<longrightarrow> postNotificationsGranted env1) \<and>
        location r =
          (if pm then map_of resp ACCESS_FINE_LOCATION = Some PERMISSION_GRANTED
           else fineLocationGranted env1) \<and>
        (status r = ''granted'' \<longleftrightarrow> notifications r \<and> location r) \<and>
        (status r = ''denied'' \<longleftrightarrow> \<not> (notifications r \<and> location r))"
    by (rule android_requestPermissions_fields)
next
  show "ios_requestPermissions granted None =
        Inr \<lparr> status = (if granted then ''granted'' else ''denied''),
              notifications = granted, location = False \<rparr>"
    by (simp add: ios_requestPermissions_def)
next
  show "ios_requestPermissions granted (Some e) = Inl (Rejection ''ERR_REQUEST_PERMISSIONS'' e)"
    by (simp add: ios_requestPermissions_def)
next
  show "\<exists>r. ios_getPermissionStatus auth = Inr r \<and>
        notifications r = (auth = Authorized \<or> auth = Provisional \<or> auth = Ephemeral) \<and>
        location r = False \<and>
        (status r = ''granted'' \<longleftrightarrow> notifications r) \<and>
        (status r = ''denied'' \<longleftrightarrow> auth = Denied)"
    by (rule ios_getPermissionStatus_fields)
qed

theorem permission_status_reduction_witness:
  "android_getPermissionStatus
       \<lparr> sdkInt = 34, postNotificationsGranted = True, fineLocationGranted = False \<rparr>
     = Inr \<lparr> status = ''denied'', notifications = True, location = False \<rparr>
   \<and> android_requestPermissions
       \<lparr> sdkInt = 34, postNotificationsGranted = False, fineLocationGranted = False \<rparr> True
       [(POST_NOTIFICATIONS, PERMISSION_GRANTED), (ACCESS_FINE_LOCATION, PERMISSION_DENIED)]
     = Inr \<lparr> status = ''denied'', notifications = True, location = False \<rparr>
   \<and> android_requestPermissions
       \<lparr> sdkInt = 34, postNotificationsGranted = True, fineLocationGranted = True \<rparr> True
       [(POST_NOTIFICATIONS, PERMISSION_DENIED), (ACCESS_FINE_LOCATION, PERMISSION_GRANTED)]
     = Inr \<lparr> status = ''denied'', notifications = False, location = True \<rparr>
   \<and> ios_requestPermissions False None
     = Inr \<lparr> status = ''denied'', notifications = False, location = False \<rparr>
   \<and> ios_getPermissionStatus Provisional
     = Inr \<lparr> status = ''granted'', notifications = True, location = False \<rparr>"
proof -
  let ?e = "\<lparr> sdkInt = 34, postNotificationsGranted = True, fineLocationGranted = False \<rparr>"
  let ?e1 = "\<lparr> sdkInt = 34, postNotificationsGranted = False, fineLocationGranted = False \<rparr>"
  let ?resp = "[(POST_NOTIFICATIONS, PERMISSION_GRANTED), (ACCESS_FINE_LOCATION, PERMISSION_DENIED)]"
  note t = permission_status_reduction
             [where env = ?e and ?env1.0 = ?e1 and pm = True and resp = ?resp
                and granted = False and auth = Provisional]
  have a: "android_getPermissionStatus ?e
             = Inr \<lparr> status = ''denied'', notifications = True, location = False \<rparr>"
    by (simp add: android_getPermissionStatus_def getPermissionStatus_def TIRAMISU_def)
  have b: "android_requestPermissions ?e1 True ?resp
             = Inr \<lparr> status = ''denied'', notifications = True, location = False \<rparr>"
    by (simp add: android_requestPermissions_def TIRAMISU_def POST_NOTIFICATIONS_def
          ACCESS_FINE_LOCATION_def PERMISSION_GRANTED_def PERMISSION_DENIED_def)
  have c: "android_requestPermissions
       \<lparr> sdkInt = 34, postNotificationsGranted = True, fineLocationGranted = True \<rparr> True
       [(POST_NOTIFICATIONS, PERMISSION_DENIED), (ACCESS_FINE_LOCATION, PERMISSION_GRANTED)]
     = Inr \<lparr> status = ''denied'', notifications = False, location = True \<rparr>"
    by (simp add: android_requestPermissions_def TIRAMISU_def POST_NOTIFICATIONS_def
          ACCESS_FINE_LOCATION_def PERMISSION_GRANTED_def PERMISSION_DENIED_def)
  from t have d: "ios_requestPermissions False None
     = Inr \<lparr> status = ''denied'', notifications = False, location = False \<rparr>"
    by simp
  have f: "ios_getPermissionStatus Provisional
     = Inr \<lparr> status = ''granted'', notifications = True, location = False \<rparr>"
    by simp
  from a b c d f show ?thesis by blast
qed

section \<open>The active query on Android\<close>

text \<open>
  Claim C9: on Android \<^verbatim>\<open>isNotificationActive(id)\<close> ignores its argument.  For any
  two ids queried in the same state the answer is the same, namely the static
  \<^verbatim>\<open>isRunning\<close> flag of the service, so while a service runs the answer is true
  for every id, also one that was never started.
\<close>

theorem isNotificationActive_ignores_id:
  "android_isNotificationActive a w = android_isNotificationActive b w
   \<and> android_isNotificationActive a w = Inr (isRunning w)
   \<and> (isServiceRunning w \<longrightarrow> android_isNotificationActive a w = Inr True)"
  by (simp add: android_isNotificationActive_def isServiceRunning_def)

theorem isNotificationActive_ignores_id_witness:
  "isServiceRunning tickState
   \<and> android_isNotificationActive ''never-started'' tickState = Inr True
   \<and> android_isNotificationActive ''never-started'' tickState
     = android_isNotificationActive ''bus'' tickState"
proof -
  have running: "isServiceRunning tickState"
    unfolding tickState_def by code_simp
  from isNotificationActive_ignores_id [of "''never-started''" tickState "''bus''"] running
  show ?thesis by auto
qed

section \<open>Lifecycle: start, stop and the active query\<close>




text \<open>
  Claim C2, as the spec states it, asks that two calls of \<^verbatim>\<open>stop(id)\<close> in succession
  produce one \<^verbatim>\<open>onServiceStatusChange\<close> event with \<^verbatim>\<open>isRunning: false\<close>.  Neither
  module looks at the state before it sends the event: start, stop, stop on
  Android sends it twice.
\<close>

theorem stop_twice_emits_two_events:
  "events (snd (android_stopPersistentNotification ''bus''
     (systemStep 2000 (snd (android_stopPersistentNotification ''bus'' tickState)))))
   = [OnServiceStatusChange True (Some ''bus''),
      OnServiceStatusChange False (Some ''bus''),
      OnServiceStatusChange False (Some ''bus'')]"
  unfolding tickState_def by code_simp

text \<open>
  Claim C2, amended: every call of \<^verbatim>\<open>stop(id)\<close> that resolves sends one
  \<^verbatim>\<open>onServiceStatusChange\<close> event with \<^verbatim>\<open>isRunning: false\<close> and that id, so two
  calls in succession send two.  On iOS \<^verbatim>\<open>stop\<close> always resolves; on Android it
  rejects with \<^verbatim>\<open>ERR_STOP_NOTIFICATION\<close>, sending no event and changing nothing,
  exactly when \<^verbatim>\<open>Context.stopService\<close> throws.  Stopping an already stopped id
  is not an error and changes nothing but the event: on Android the second
  request to the system does nothing when it is carried out, on iOS the second
  call leaves everything but the event log as it was.
\<close>

theorem stop_emits_event_every_call:
  fixes w w1 :: android and v :: ios and ident :: string
  defines "v1 \<equiv> snd (ios_stopPersistentNotification ident v)"
      and "v2 \<equiv> snd (ios_stopPersistentNotification ident
                        (snd (ios_stopPersistentNotification ident v)))"
  shows "(stopServiceThrows w = None \<longrightarrow>
            android_stopPersistentNotification ident w =
              (Inr (),
               w\<lparr> pendingCommands := pendingCommands w @ [StopCommand],
                  events := events w @ [OnServiceStatusChange False (Some ident)] \<rparr>) \<and>
            android_stopPersistentNotification ident
                (snd (android_stopPersistentNotification ident w)) =
              (Inr (),
               w\<lparr> pendingCommands := pendingCommands w @ [StopCommand, StopCommand],
                  events := events w @ [OnServiceStatusChange False (Some ident),
                                        OnServiceStatusChange False (Some ident)] \<rparr>))
     \<and> (fst (android_stopPersistentNotification ident w) = Inr ()
          \<longleftrightarrow> stopServiceThrows w = None)
     \<and> (stopServiceThrows w = Some msg \<longrightarrow>
            android_stopPersistentNotification ident w =
              (Inl (Rejection ''ERR_STOP_NOTIFICATION'' msg), w))
     \<and> deliverCommand StopCommand t2 (deliverCommand StopCommand t1 w1) =
          deliverCommand StopCommand t1 w1
     \<and> fst (ios_stopPersistentNotification ident v) = Inr ()
     \<and> fst (ios_stopPersistentNotification ident v1) = Inr ()
     \<and> iosEvents v2 = iosEvents v @ [OnServiceStatusChange False (Some ident),
                                      OnServiceStatusChange False (Some ident)]
     \<and> v2 = v1\<lparr> iosEvents := iosEvents v1 @ [OnServiceStatusChange False (Some ident)] \<rparr>"
proof (intro conjI impI)
  assume t: "stopServiceThrows w = None"
  show first: "android_stopPersistentNotification ident w =
              (Inr (),
               w\<lparr> pendingCommands := pendingCommands w @ [StopCommand],
                  events := events w @ [OnServiceStatusChange False (Some ident)] \<rparr>)"
    by (rule android_stop_call [OF t])
  let ?w = "w\<lparr> pendingCommands := pendingCommands w @ [StopCommand],
               events := events w @ [OnServiceStatusChange False (Some ident)] \<rparr>"
  from t have "stopServiceThrows ?w = None" by simp
  from android_stop_call [OF this, of ident] first
  show "android_stopPersistentNotification ident
                (snd (android_stopPersistentNotification ident w)) =
              (Inr (),
               w\<lparr> pendingCommands := pendingCommands w @ [StopCommand, StopCommand],
                  events := events w @ [OnServiceStatusChange False (Some ident),
                                        OnServiceStatusChange False (Some ident)] \<rparr>)"
    by simp
next
  show "fst (android_stopPersistentNotification ident w) = Inr ()
          \<longleftrightarrow> stopServiceThrows w = None"
    by (simp add: android_stopPersistentNotification_def Let_def split: option.splits)
next
  assume "stopServiceThrows w = Some msg"
  then show "android_stopPersistentNotification ident w =
              (Inl (Rejection ''ERR_STOP_NOTIFICATION'' msg), w)"
    by (rule android_stop_throws)
next
  show "deliverCommand StopCommand t2 (deliverCommand StopCommand t1 w1) =
          deliverCommand StopCommand t1 w1"
    by (rule deliver_stop_twice)
qed (simp_all add: v1_def v2_def ios_stopPersistentNotification_def ios_sendEvent_def
       removePendingNotificationRequests_def removeDeliveredNotifications_def Let_def)

theorem stop_emits_event_every_call_witness:
  "stopServiceThrows tickState = None
   \<and> events (snd (android_stopPersistentNotification ''bus''
               (snd (android_stopPersistentNotification ''bus'' tickState))))
      = events tickState @ [OnServiceStatusChange False (Some ''bus''),
                            OnServiceStatusChange False (Some ''bus'')]
   \<and> stopServiceThrows (tickState\<lparr> stopServiceThrows := Some ''refused'' \<rparr>) = Some ''refused''
   \<and> android_stopPersistentNotification ''bus''
        (tickState\<lparr> stopServiceThrows := Some ''refused'' \<rparr>)
      = (Inl (Rejection ''ERR_STOP_NOTIFICATION'' ''refused''),
         tickState\<lparr> stopServiceThrows := Some ''refused'' \<rparr>)"
proof -
  have s: "stopServiceThrows tickState = None" unfolding tickState_def by code_simp
  have r: "stopServiceThrows (tickState\<lparr> stopServiceThrows := Some ''refused'' \<rparr>)
             = Some ''refused''"
    by simp
  note a = stop_emits_event_every_call [of tickState "''bus''"]
  note b = stop_emits_event_every_call
             [of "tickState\<lparr> stopServiceThrows := Some ''refused'' \<rparr>" "''bus''" "''refused''"]
  from a s have "android_stopPersistentNotification ''bus''
                (snd (android_stopPersistentNotification ''bus'' tickState)) =
              (Inr (),
               tickState\<lparr> pendingCommands := pendingCommands tickState @ [StopCommand, StopCommand],
                  events := events tickState @ [OnServiceStatusChange False (Some ''bus''),
                                        OnServiceStatusChange False (Some ''bus'')] \<rparr>)"
    by blast
  then have e: "events (snd (android_stopPersistentNotification ''bus''
               (snd (android_stopPersistentNotification ''bus'' tickState))))
      = events tickState @ [OnServiceStatusChange False (Some ''bus''),
                            OnServiceStatusChange False (Some ''bus'')]"
    by simp
  from b r have x: "android_stopPersistentNotification ''bus''
        (tickState\<lparr> stopServiceThrows := Some ''refused'' \<rparr>)
      = (Inl (Rejection ''ERR_STOP_NOTIFICATION'' ''refused''),
         tickState\<lparr> stopServiceThrows := Some ''refused'' \<rparr>)"
    by blast
  from s e r x show ?thesis by blast
qed

text \<open>
  Claim C7, as the spec states it, asks that \<^verbatim>\<open>start\<close> reject with InvalidOptions when
  the id, the title or the body is empty, and register nothing.  Both modules
  accept empty strings: Android starts the service, iOS posts the request.
\<close>

theorem start_accepts_empty_strings:
  "fst (android_startPersistentNotification emptyOptions initialAndroid) = Inr ()
   \<and> isRunning
        (systemStep 0 (snd (android_startPersistentNotification emptyOptions initialAndroid)))
   \<and> currentNotificationId
        (systemStep 0 (snd (android_startPersistentNotification emptyOptions initialAndroid)))
       = Some ''''
   \<and> fst (ios_startPersistentNotification emptyOptions initialIos) = Inr ()
   \<and> ios_isNotificationActive ''''
        (snd (ios_startPersistentNotification emptyOptions initialIos)) = Inr True"
  by code_simp

text \<open>
  Claim C7, amended: on iOS \<^verbatim>\<open>start\<close> rejects with \<^verbatim>\<open>ERR_INVALID_OPTIONS\<close> exactly when
  the content is no dictionary or the id, the title or the body is missing or
  no string, and then leaves the state as it was; an empty string passes.  On
  Android \<^verbatim>\<open>start\<close> validates nothing: it resolves unless starting the service
  throws, and then it rejects with \<^verbatim>\<open>ERR_START_NOTIFICATION\<close>.
\<close>

theorem start_validation:
  "(fst (ios_startPersistentNotification options v) =
       Inl (Rejection ''ERR_INVALID_OPTIONS'' ''Invalid notification options'')
     \<longleftrightarrow> startGuard options = None)
   \<and> (startGuard options = None \<longleftrightarrow>
        (asMap (map_of options ''content'') = None \<or> asString (map_of options ''id'') = None \<or>
         (\<exists>cont. asMap (map_of options ''content'') = Some cont \<and>
            (asString (map_of cont ''title'') = None \<or> asString (map_of cont ''body'') = None))))
   \<and> (startGuard options = None \<longrightarrow> snd (ios_startPersistentNotification options v) = v)
   \<and> (fst (android_startPersistentNotification options w) = Inr ()
        \<longleftrightarrow> startServiceThrows w = None)
   \<and> (\<forall>code msg. fst (android_startPersistentNotification options w) =
          Inl (Rejection code msg) \<longrightarrow>
          code = ''ERR_START_NOTIFICATION'' \<and> startServiceThrows w = Some msg)"
proof (intro conjI)
  show "fst (ios_startPersistentNotification options v) =
       Inl (Rejection ''ERR_INVALID_OPTIONS'' ''Invalid notification options'')
     \<longleftrightarrow> startGuard options = None"
    using ios_start_guarded [of options _ v] ios_start_invalid [of options v]
    by (cases "startGuard options") auto
  show "startGuard options = None \<longrightarrow> snd (ios_startPersistentNotification options v) = v"
    by (simp add: ios_start_invalid)
  show "\<forall>code msg. fst (android_startPersistentNotification options w) =
          Inl (Rejection code msg) \<longrightarrow>
          code = ''ERR_START_NOTIFICATION'' \<and> startServiceThrows w = Some msg"
    by (auto simp: android_startPersistentNotification_def Let_def split: option.splits)
qed (rule startGuard_None, rule android_start_rejected)

theorem start_validation_witness:
  "startGuard [(''id'', JStr ''bus'')] = None
   \<and> ios_startPersistentNotification [(''id'', JStr ''bus'')] initialIos =
       (Inl (Rejection ''ERR_INVALID_OPTIONS'' ''Invalid notification options''), initialIos)
   \<and> fst (android_startPersistentNotification [(''id'', JStr ''bus'')] initialAndroid) = Inr ()
   \<and> startServiceThrows (initialAndroid\<lparr> startServiceThrows := Some ''not allowed'' \<rparr>)
       = Some ''not allowed''
   \<and> fst (android_startPersistentNotification [(''id'', JStr ''bus'')]
            (initialAndroid\<lparr> startServiceThrows := Some ''not allowed'' \<rparr>))
       = Inl (Rejection ''ERR_START_NOTIFICATION'' ''not allowed'')"
proof -
  have g: "startGuard [(''id'', JStr ''bus'')] = None" by code_simp
  have t: "startServiceThrows initialAndroid = None" by (simp add: initialAndroid_def)
  have e: "fst (android_startPersistentNotification [(''id'', JStr ''bus'')]
            (initialAndroid\<lparr> startServiceThrows := Some ''not allowed'' \<rparr>))
       = Inl (Rejection ''ERR_START_NOTIFICATION'' ''not allowed'')"
    by (simp add: android_startPersistentNotification_def)
  note a = start_validation [of "[(''id'', JStr ''bus'')]" initialIos initialAndroid]
  note b = start_validation [of "[(''id'', JStr ''bus'')]" initialIos
                            "initialAndroid\<lparr> startServiceThrows := Some ''not allowed'' \<rparr>"]
  from a g have i: "ios_startPersistentNotification [(''id'', JStr ''bus'')] initialIos =
       (Inl (Rejection ''ERR_INVALID_OPTIONS'' ''Invalid notification options''), initialIos)"
    by (metis prod.collapse)
  from a t
  have r: "fst (android_startPersistentNotification [(''id'', JStr ''bus'')] initialAndroid)
             = Inr ()"
    by blast
  from b e
  have s: "startServiceThrows (initialAndroid\<lparr> startServiceThrows := Some ''not allowed'' \<rparr>)
       = Some ''not allowed''"
    by blast
  from g i r s e show ?thesis by blast
qed

text \<open>
  Claim C10: on iOS \<^verbatim>\<open>updateNotificationContent(id, content)\<close> for an id with no
  pending request does not fail with a not-found error.  It posts a new request
  under that identifier, with the given title and body and no category, and
  sends \<^verbatim>\<open>onNotificationUpdate\<close>; so an update after a stop makes the id active
  again.
\<close>

theorem ios_update_unknown_id_posts_request:
  assumes t: "asString (map_of cont ''title'') = Some t"
      and b: "asString (map_of cont ''body'') = Some b"
      and e: "addError v = None"
  shows "(ios_isNotificationActive ident v = Inr False \<longrightarrow>
            fst (ios_updateNotificationContent ident cont v) = Inr () \<and>
            (\<exists>nc. pendingRequests (snd (ios_updateNotificationContent ident cont v)) =
               pendingRequests v @ [\<lparr> requestIdentifier = ident, requestContent = nc \<rparr>] \<and>
               ncTitle nc = t \<and> ncBody nc = b \<and> ncCategoryIdentifier nc = '''' \<and>
               ncBadge nc = None) \<and>
            iosEvents (snd (ios_updateNotificationContent ident cont v)) =
              iosEvents v @ [OnNotificationUpdate ident] \<and>
            ios_isNotificationActive ident (snd (ios_updateNotificationContent ident cont v))
              = Inr True)
       \<and> fst (ios_updateNotificationContent ident cont
                (snd (ios_stopPersistentNotification ident v))) = Inr ()
       \<and> ios_isNotificationActive ident
           (snd (ios_updateNotificationContent ident cont
                   (snd (ios_stopPersistentNotification ident v)))) = Inr True"
  using ios_update_new [OF t b e, of ident]
        ios_update_new [OF t b, of "snd (ios_stopPersistentNotification ident v)" ident]
        ios_stop_inactive(2) [of ident v] e
  by (simp add: ios_stop_addError)

theorem ios_update_unknown_id_posts_request_witness:
  "asString (map_of [(''title'', JStr ''Late''), (''body'', JStr ''Again'')] ''title'') = Some ''Late''
   \<and> asString (map_of [(''title'', JStr ''Late''), (''body'', JStr ''Again'')] ''body'') = Some ''Again''
   \<and> addError initialIos = None
   \<and> ios_isNotificationActive ''gone'' initialIos = Inr False
   \<and> ios_updateNotificationContent ''gone''
        [(''title'', JStr ''Late''), (''body'', JStr ''Again'')] initialIos
      = (Inr (),
         initialIos\<lparr> pendingRequests :=
                        [\<lparr> requestIdentifier = ''gone'',
                           requestContent = emptyContent\<lparr> ncTitle := ''Late'', ncBody := ''Again'' \<rparr> \<rparr>],
                      iosEvents := [OnNotificationUpdate ''gone''] \<rparr>)
   \<and> ios_isNotificationActive ''gone''
        (snd (ios_updateNotificationContent ''gone''
                [(''title'', JStr ''Late''), (''body'', JStr ''Again'')]
                (snd (ios_stopPersistentNotification ''gone''
                        (snd (ios_startPersistentNotification
                                [(''id'', JStr ''gone''), (''content'', busContent)]
                                initialIos)))))) = Inr True"
proof -
  have t: "asString (map_of [(''title'', JStr ''Late''), (''body'', JStr ''Again'')] ''title'')
             = Some ''Late''"
    by simp
  have b: "asString (map_of [(''title'', JStr ''Late''), (''body'', JStr ''Again'')] ''body'')
             = Some ''Again''"
    by simp
  have e: "addError initialIos = None" by (simp add: initialIos_def)
  have e': "addError (snd (ios_startPersistentNotification
                                [(''id'', JStr ''gone''), (''content'', busContent)]
                                initialIos)) = None"
    by code_simp
  have n: "ios_isNotificationActive ''gone'' initialIos = Inr False"
    by (simp add: ios_isNotificationActive_def initialIos_def)
  have u: "ios_updateNotificationContent ''gone''
        [(''title'', JStr ''Late''), (''body'', JStr ''Again'')] initialIos
      = (Inr (),
         initialIos\<lparr> pendingRequests :=
                        [\<lparr> requestIdentifier = ''gone'',
                           requestContent = emptyContent\<lparr> ncTitle := ''Late'', ncBody := ''Again'' \<rparr> \<rparr>],
                      iosEvents := [OnNotificationUpdate ''gone''] \<rparr>)"
    by (simp add: ios_updateNotificationContent_def contentGuard_def initialIos_def
          centerAdd_def ios_sendEvent_def Let_def)
  from ios_update_unknown_id_posts_request [OF t b e, of "''gone''"]
       ios_update_unknown_id_posts_request [OF t b e', of "''gone''"] t b e n u
  show ?thesis by simp
qed

section \<open>Actions\<close>



section \<open>The arrival deadline and the timer\<close>

text \<open>
  Claim C5, as the spec states it, asks that \<^verbatim>\<open>start\<close> start the timer only when
  \<^verbatim>\<open>arrivalMinutes\<close> is present, and that without it no deadline exists and no
  timer runs.  The service falls back to five minutes and starts the timer in
  every case.
\<close>

theorem start_without_arrivalMinutes_arms_timer:
  "map_of plainOptions ''arrivalMinutes'' = None
   \<and> fst (android_startPersistentNotification plainOptions initialAndroid) = Inr ()
   \<and> timerArmed
        (systemStep 1000 (snd (android_startPersistentNotification plainOptions initialAndroid)))
   \<and> arrivalDeadline
        (systemStep 1000 (snd (android_startPersistentNotification plainOptions initialAndroid)))
       = Some 301000"
  by code_simp

text \<open>
  Claim C5, amended: on Android every \<^verbatim>\<open>start(options)\<close> that resolves starts the
  auto-update timer, whether \<^verbatim>\<open>arrivalMinutes\<close> is present or not: the call hands
  the start to the system, and the service arms the timer when the start is
  delivered, the clock then reading \<open>now\<close>.  The arrival deadline is
  \<open>now + arrivalMinutes * 60\<close> seconds when \<^verbatim>\<open>arrivalMinutes\<close> is a whole number \<open>k\<close>
  whose seconds fit an \<^verbatim>\<open>Int\<close>, and \<open>now + 5 * 60\<close> seconds when it is absent or no
  number.  The clock is taken to read a time of the present era.
\<close>

theorem start_arms_timer_with_deadline:
  assumes resolves: "startServiceThrows w = None"
      and clock: "0 \<le> now" "now < 4611686018427387904"
  shows "fst (android_startPersistentNotification options w) = Inr ()
       \<and> pendingCommands (snd (android_startPersistentNotification options w)) =
           pendingCommands w @ [StartCommand (startIntent options)]
       \<and> timerArmed (deliverCommand (StartCommand (startIntent options)) now w1)
       \<and> (asNumber (map_of options ''arrivalMinutes'') = None \<longrightarrow>
            arrivalDeadline (deliverCommand (StartCommand (startIntent options)) now w1) =
              Some (now + 5 * 60 * 1000))
       \<and> (asNumber (map_of options ''arrivalMinutes'') = Some (of_int k) \<and>
            - 35791394 \<le> k \<and> k \<le> 35791394 \<longrightarrow>
            arrivalDeadline (deliverCommand (StartCommand (startIntent options)) now w1) =
              Some (now + k * 60 * 1000))"
proof (intro conjI impI)
  show "fst (android_startPersistentNotification options w) = Inr ()"
    by (simp add: android_start_call [OF resolves])
  show "pendingCommands (snd (android_startPersistentNotification options w)) =
           pendingCommands w @ [StartCommand (startIntent options)]"
    by (simp add: android_start_call [OF resolves])
  show "timerArmed (deliverCommand (StartCommand (startIntent options)) now w1)"
    by (rule deliver_start_timer(1))
next
  assume "asNumber (map_of options ''arrivalMinutes'') = None"
  with deliver_start_timer(2) [of options now w1] deadline_in_range [OF clock, of 5]
  show "arrivalDeadline (deliverCommand (StartCommand (startIntent options)) now w1) =
          Some (now + 5 * 60 * 1000)"
    by simp
next
  assume k: "asNumber (map_of options ''arrivalMinutes'') = Some (of_int k) \<and>
            - 35791394 \<le> k \<and> k \<le> 35791394"
  then have "toInt (of_int k) = k" by (intro toInt_of_int) simp_all
  with k deliver_start_timer(2) [of options now w1] deadline_in_range [OF clock, of k]
  show "arrivalDeadline (deliverCommand (StartCommand (startIntent options)) now w1) =
          Some (now + k * 60 * 1000)"
    by simp
qed

theorem start_arms_timer_with_deadline_witness:
  "startServiceThrows initialAndroid = None
   \<and> (0::int) \<le> 1000 \<and> (1000::int) < 4611686018427387904
   \<and> asNumber (map_of plainOptions ''arrivalMinutes'') = None
   \<and> asNumber (map_of busOptions ''arrivalMinutes'') = Some (of_int 5)
   \<and> - 35791394 \<le> (5::int) \<and> (5::int) \<le> 35791394
   \<and> pendingCommands (snd (android_startPersistentNotification busOptions initialAndroid))
       = [StartCommand (startIntent busOptions)]
   \<and> timerArmed tickState
   \<and> arrivalDeadline tickState = Some 301000
   \<and> arrivalDeadline
        (systemStep 1000 (snd (android_startPersistentNotification plainOptions initialAndroid)))
       = Some 301000"
proof -
  have t: "startServiceThrows initialAndroid = None" by code_simp
  have p: "asNumber (map_of plainOptions ''arrivalMinutes'') = None" by code_simp
  have b: "asNumber (map_of busOptions ''arrivalMinutes'') = Some (of_int 5)" by code_simp
  have e: "pendingCommands initialAndroid = []" by (simp add: initialAndroid_def)
  let ?wb = "(snd (android_startPersistentNotification busOptions initialAndroid))
               \<lparr> pendingCommands := [] \<rparr>"
  let ?wp = "(snd (android_startPersistentNotification plainOptions initialAndroid))
               \<lparr> pendingCommands := [] \<rparr>"
  note tb = start_arms_timer_with_deadline [OF t, of 1000 busOptions ?wb 5]
  note tp = start_arms_timer_with_deadline [OF t, of 1000 plainOptions ?wp 5]
  from tb e have qb: "pendingCommands
       (snd (android_startPersistentNotification busOptions initialAndroid))
       = [StartCommand (startIntent busOptions)]"
    by simp
  from tp e have qp: "pendingCommands
       (snd (android_startPersistentNotification plainOptions initialAndroid))
       = [StartCommand (startIntent plainOptions)]"
    by simp
  have sb: "tickState = deliverCommand (StartCommand (startIntent busOptions)) 1000 ?wb"
    unfolding tickState_def by (rule systemStep_single [OF qb])
  have sp: "systemStep 1000
              (snd (android_startPersistentNotification plainOptions initialAndroid))
            = deliverCommand (StartCommand (startIntent plainOptions)) 1000 ?wp"
    by (rule systemStep_single [OF qp])
  from tb have armed: "timerArmed tickState" unfolding sb by simp
  from tb b have db: "arrivalDeadline tickState = Some 301000" unfolding sb by simp
  from tp p have dp: "arrivalDeadline
        (systemStep 1000 (snd (android_startPersistentNotification plainOptions initialAndroid)))
       = Some 301000"
    unfolding sp by simp
  from t p b qb armed db dp show ?thesis by simp
qed

text \<open>
  Claim C4: on an auto-update tick with time remaining, the body shown is the
  template for \<open>N\<close> minutes with \<open>N\<close> the remaining minutes rounded up, in its
  singular form exactly when \<open>N = 1\<close>; with no time remaining it is the message
  that the bus is arriving; the title is the same constant in every case.  The
  remaining minutes are taken to fit an \<^verbatim>\<open>Int\<close>, beyond which \<^verbatim>\<open>toInt\<close> saturates.
\<close>

theorem tick_renders_remaining_minutes:
  assumes opts: "notificationOptions (services w i) = Some opts"
      and ok: "validActions opts"
      and rem: "remainingMs = wrap64 (arrivalTimeMillis (services w i) - now)"
      and range: "remainingMs \<le> 2147483647 * 60000"
      and mins: "N = \<lceil>(of_int remainingMs :: rat) / 60000\<rceil>"
  shows "\<exists>n. posted (run i r now w) = n # posted w \<and>
             shown (run i r now w) = Some n \<and>
             contentTitle n = ''Rastreando ubicaci'' @ [CHR 0xC3, CHR 0xB3] @ ''n'' \<and>
             contentText n =
               (if remainingMs \<le> 0 then
                  [CHR 0xC2, CHR 0xA1] @ ''El bus est'' @ [CHR 0xC3, CHR 0xA1] @ '' llegando!''
                else if N = 1 then
                  ''Pr'' @ [CHR 0xC3, CHR 0xB3] @ ''ximo bus en 1 minuto''
                else
                  ''Pr'' @ [CHR 0xC3, CHR 0xB3] @ ''ximo bus en '' @ intToString N @ '' minutos'')"
proof (cases "remainingMs \<le> 0")
  case True
  then have "(of_int remainingMs :: rat) / 60000 \<le> 0" by (simp add: divide_le_0_iff)
  with True rem updateNotificationWithTime_renders [OF opts ok, of 0]
  show ?thesis
    by (simp add: run_def Let_def arrivalTitle_def arrivalBody_def)
next
  case False
  then have pos: "0 < remainingMs" by simp
  then have p: "\<not> (of_int remainingMs :: rat) / 60000 \<le> 0" by (simp add: divide_le_0_iff)
  from ceiling_minutes_in_range [OF pos range] mins
  have N: "toInt (of_int \<lceil>(of_int remainingMs :: rat) / 60000\<rceil>) = N" "1 \<le> N"
    by simp_all
  from updateNotificationWithTime_renders [OF opts ok, of N] rem p N False
  show ?thesis
    by (auto simp add: run_def Let_def arrivalTitle_def arrivalBody_def)
qed

theorem tick_renders_remaining_minutes_witness:
  "notificationOptions (services tickState 0) = Some busOptions
   \<and> validActions busOptions
   \<and> wrap64 (arrivalTimeMillis (services tickState 0) - 7000) = 294000
   \<and> wrap64 (arrivalTimeMillis (services tickState 0) - 250000) = 51000
   \<and> wrap64 (arrivalTimeMillis (services tickState 0) - 301000) = 0
   \<and> (294000 :: int) \<le> 2147483647 * 60000
   \<and> \<lceil>(of_int 294000 :: rat) / 60000\<rceil> = 5 \<and> \<lceil>(of_int 51000 :: rat) / 60000\<rceil> = 1
   \<and> map_option contentText (shown (run 0 2 7000 tickState))
       = Some (''Pr'' @ [CHR 0xC3, CHR 0xB3] @ ''ximo bus en 5 minutos'')
   \<and> map_option contentText (shown (run 0 2 250000 tickState))
       = Some (''Pr'' @ [CHR 0xC3, CHR 0xB3] @ ''ximo bus en 1 minuto'')
   \<and> map_option contentText (shown (run 0 2 301000 tickState))
       = Some ([CHR 0xC2, CHR 0xA1] @ ''El bus est'' @ [CHR 0xC3, CHR 0xA1] @ '' llegando!'')
   \<and> map_option contentTitle (shown (run 0 2 7000 tickState))
       = Some (''Rastreando ubicaci'' @ [CHR 0xC3, CHR 0xB3] @ ''n'')"
proof -
  have o: "notificationOptions (services tickState 0) = Some busOptions"
    unfolding tickState_def by code_simp
  have v: "validActions busOptions" by code_simp
  have a: "294000 = wrap64 (arrivalTimeMillis (services tickState 0) - 7000)"
    unfolding tickState_def by code_simp
  have b: "51000 = wrap64 (arrivalTimeMillis (services tickState 0) - 250000)"
    unfolding tickState_def by code_simp
  have c: "0 = wrap64 (arrivalTimeMillis (services tickState 0) - 301000)"
    unfolding tickState_def by code_simp
  have ra: "(294000 :: int) \<le> 2147483647 * 60000" by simp
  have rb: "(51000 :: int) \<le> 2147483647 * 60000" by simp
  have rc: "(0 :: int) \<le> 2147483647 * 60000" by simp
  have n5: "5 = \<lceil>(of_int 294000 :: rat) / 60000\<rceil>" by code_simp
  have n1: "1 = \<lceil>(of_int 51000 :: rat) / 60000\<rceil>" by code_simp
  have n0: "0 = \<lceil>(of_int 0 :: rat) / 60000\<rceil>" by simp
  have s5: "intToString 5 = ''5''" by code_simp
  from tick_renders_remaining_minutes [OF o v a ra n5, of 2]
       tick_renders_remaining_minutes [OF o v b rb n1, of 2]
       tick_renders_remaining_minutes [OF o v c rc n0, of 2]
       o v a [symmetric] b [symmetric] c [symmetric] n5 [symmetric] n1 [symmetric] s5
  show ?thesis by auto
qed

text \<open>
  Claim C8 asks that no tick pending at the moment of a stop render the removed
  notification.  \<^verbatim>\<open>stopAutoUpdate\<close> removes the pending posts of the current
  runnable only, and a second start replaces the runnable without cancelling
  the first.  After start, start, stop, each carried out by the system, the tick
  of the first runnable is still on the looper; the service is stopped and
  nothing is shown; running that tick posts the notification again.  After a
  single start the stop leaves the looper empty.
\<close>

theorem stale_tick_renders_after_stop:
  "fst (android_stopPersistentNotification ''plain''
       (systemStep 2000 (snd (android_startPersistentNotification plainOptions tickState))))
     = Inr ()
   \<and> pendingCommands staleState = []
   \<and> \<not> isRunning staleState \<and> shown staleState = None
   \<and> looper staleState =
        [\<lparr> postHandler = 1, postService = 0, postTask = UpdateRunnable 2, postDelay = 0 \<rparr>]
   \<and> map_option contentText (shown (dispatch 0 8000 staleState))
        = Some (''Pr'' @ [CHR 0xC3, CHR 0xB3] @ ''ximo bus en 5 minutos'')
   \<and> length (posted (dispatch 0 8000 staleState)) = Suc (length (posted staleState))
   \<and> looper (systemStep 2000 (snd (android_stopPersistentNotification ''bus'' tickState)))
        = []"
  unfolding staleState_def tickState_def by code_simp

end
